theory Spec2Isabelle
  imports Main
begin

section \<open>The login-as helpers of \<^verbatim>\<open>loginas/utils.py\<close>\<close>

text \<open>
  The module is glue around the web framework's session, signing, authentication, signal,
  message and admin-log primitives. The three functions of the module (and its context
  manager) are embedded as state-passing functions over a record of everything they read or
  write; every exception is a value of \<open>error\<close>, returned next to the state reached when it
  was raised. The framework primitives are not part of the module: they are modelled here
  by their documented behaviour, each with a note of what is left out. Line numbers are
  those of \<^verbatim>\<open>loginas/utils.py\<close>.
\<close>

subsection \<open>Primary keys and their text\<close>

text \<open>
  A primary key is \<open>None\<close> (an anonymous or unsaved user) or an integer. Python's
  \<^verbatim>\<open>str(pk)\<close> is what the signer and the session store; \<open>int_of_str\<close> is the
  conversion the integer key field applies to a stored text (decimal digits with an
  optional minus sign; anything else is refused).
\<close>

definition digit_char :: "nat \<Rightarrow> char" where
  "digit_char d = ''0123456789'' ! d"

fun str_nat :: "nat \<Rightarrow> string" where
  "str_nat n = (if n < 10 then [digit_char n] else str_nat (n div 10) @ [digit_char (n mod 10)])"

declare str_nat.simps [simp del]

definition str_int :: "int \<Rightarrow> string" where
  "str_int i = (if i < 0 then CHR ''-'' # str_nat (nat (- i)) else str_nat (nat i))"

definition str_pk :: "int option \<Rightarrow> string" where
  "str_pk p = (case p of None \<Rightarrow> ''None'' | Some i \<Rightarrow> str_int i)"

definition digit_val :: "char \<Rightarrow> nat option" where
  "digit_val c =
     (if 48 \<le> (of_char c :: nat) \<and> (of_char c :: nat) \<le> 57 then Some (of_char c - 48) else None)"

fun nat_of_digits :: "nat \<Rightarrow> string \<Rightarrow> nat option" where
  "nat_of_digits acc [] = Some acc"
| "nat_of_digits acc (c # cs) =
     (case digit_val c of None \<Rightarrow> None | Some d \<Rightarrow> nat_of_digits (acc * 10 + d) cs)"

definition int_of_str :: "string \<Rightarrow> int option" where
  "int_of_str s =
     (case s of
        [] \<Rightarrow> None
      | c # cs \<Rightarrow>
          if c = CHR ''-''
          then (if cs = [] then None else map_option (\<lambda>n. - int n) (nat_of_digits 0 cs))
          else map_option int (nat_of_digits 0 s))"

text \<open>Python truthiness of a primary key: \<^verbatim>\<open>None\<close> and \<^verbatim>\<open>0\<close> are false.\<close>

definition truthy_pk :: "int option \<Rightarrow> bool" where
  "truthy_pk p = (case p of None \<Rightarrow> False | Some i \<Rightarrow> i \<noteq> 0)"

subsection \<open>Data\<close>

datatype error =
    ImproperlyConfigured
  | AttributeError
  | KeyError
  | ValueError
  | ValidationError
  | DatabaseError
  | IntegrityError
  | DoesNotExist
  | MessageFailure
  | BadSignature
  | SignatureExpired

text \<open>
  A user object. \<open>backend\<close> is the optional \<^verbatim>\<open>backend\<close> attribute
  (\<open>None\<close>: \<^verbatim>\<open>hasattr(user, "backend")\<close> is false), \<open>dict\<close> is
  \<^verbatim>\<open>user.__dict__\<close>, \<open>to_str\<close> is \<^verbatim>\<open>str(user)\<close>.
\<close>

record User =
  pk :: "int option"
  backend :: "string option"
  dict :: "string \<rightharpoonup> string"
  to_str :: string
  session_auth_hash :: string
  last_login :: "int option"

definition AnonymousUser :: User where
  "AnonymousUser =
     \<lparr>pk = None, backend = None, dict = Map.empty, to_str = ''AnonymousUser'',
      session_auth_hash = [], last_login = None\<rparr>"

text \<open>
  A session value is a plain text or a token of the timestamp signer: the signed text,
  the timestamp and the signature (the framework writes the three joined by colons).
\<close>

datatype sval = Str string | Token string int string

record Message =
  level :: nat
  message :: string
  extra_tags :: string

text \<open>
  A request: the user the authentication middleware attached, the session if the request
  has one (\<open>None\<close>: \<^verbatim>\<open>hasattr(request, 'session')\<close> is false) and the message
  storage if the message middleware installed one.
\<close>

record HttpRequest =
  user :: User
  session :: "(string \<rightharpoonup> sval) option"
  messages :: "Message list option"

record LogEntry =
  user_id :: "int option"
  content_type_id :: int
  object_id :: string
  object_repr :: string
  change_message :: string
  action_flag :: nat

text \<open>
  A receiver of the \<^verbatim>\<open>user_logged_in\<close> signal is registered under a lookup key: its
  dispatch uid when one was given, the identity of the receiver function otherwise.
\<close>

datatype lookup_key = Receiver_id string | Dispatch_uid string

text \<open>
  Everything the module reads or writes: the request, the admin log table, the receivers
  of \<^verbatim>\<open>user_logged_in\<close>, the user table and the clock (seconds).
\<close>

record world =
  request :: HttpRequest
  LogEntry_objects :: "LogEntry list"
  receivers :: "(lookup_key \<times> string) list"
  User_objects :: "int \<rightharpoonup> User"
  time :: int

record backend_obj =
  has_get_user :: bool
  get_user :: "(int \<rightharpoonup> User) \<Rightarrow> int option \<Rightarrow> User option"

text \<open>
  The settings the module reads (\<^verbatim>\<open>la_settings\<close>, \<^verbatim>\<open>django_settings\<close>) and the
  parts of the installation it calls: the backend each configured path loads (every
  configured path is taken to load), the signer's keyed signature and the content type of
  the user model. The two message templates are functions of the user name they format.
\<close>

record config =
  AUTHENTICATION_BACKENDS :: "string list"
  load_backend :: "string \<Rightarrow> backend_obj"
  UPDATE_LAST_LOGIN :: bool
  USER_SESSION_FLAG :: string
  USER_SESSION_DAYS_TIMESTAMP :: int
  MESSAGE_LOGIN_SWITCH :: "string \<Rightarrow> string"
  MESSAGE_LOGIN_REVERT :: "string \<Rightarrow> string"
  MESSAGE_EXTRA_TAGS :: string
  USERNAME_FIELD :: string
  signature :: "string \<Rightarrow> int \<Rightarrow> string"
  user_content_type :: int

subsection \<open>Framework primitives\<close>

definition SESSION_KEY :: string where
  "SESSION_KEY = ''_auth_user_id''"

definition BACKEND_SESSION_KEY :: string where
  "BACKEND_SESSION_KEY = ''_auth_user_backend''"

definition HASH_SESSION_KEY :: string where
  "HASH_SESSION_KEY = ''_auth_user_hash''"

definition CHANGE :: nat where
  "CHANGE = 2"

definition INFO :: nat where
  "INFO = 20"

definition WARNING :: nat where
  "WARNING = 30"

text \<open>
  Model equality of users: same primary key, and an instance without a primary key is
  equal to itself only (a user a backend loaded is another object). The comparison with
  \<^verbatim>\<open>None\<close> is false.
\<close>

definition user_eq :: "User \<Rightarrow> User option \<Rightarrow> bool" where
  "user_eq u other =
     (case other of None \<Rightarrow> False | Some v \<Rightarrow> (case pk u of None \<Rightarrow> False | Some i \<Rightarrow> pk v = Some i))"

text \<open>
  \<^verbatim>\<open>TimestampSigner.sign\<close> and \<^verbatim>\<open>unsign\<close>: the signature is checked first, then
  the age against \<open>max_age\<close>.
\<close>

definition sign :: "config \<Rightarrow> string \<Rightarrow> int \<Rightarrow> sval" where
  "sign cfg v t = Token v t (signature cfg v t)"

definition unsign :: "config \<Rightarrow> sval \<Rightarrow> int \<Rightarrow> int \<Rightarrow> error + string" where
  "unsign cfg signed max_age t_now =
     (case signed of
        Str _ \<Rightarrow> Inl BadSignature
      | Token v t sg \<Rightarrow>
          if sg \<noteq> signature cfg v t then Inl BadSignature
          else if t_now - t > max_age then Inl SignatureExpired
          else Inr v)"

text \<open>
  \<^verbatim>\<open>Signal.connect\<close> appends the receiver unless its lookup key is registered;
  \<^verbatim>\<open>Signal.disconnect\<close> removes the first receiver under the key and says whether
  there was one.
\<close>

definition make_key :: "string \<Rightarrow> string option \<Rightarrow> lookup_key" where
  "make_key receiver dispatch_uid =
     (case dispatch_uid of
        None \<Rightarrow> Receiver_id receiver
      | Some d \<Rightarrow> if d = [] then Receiver_id receiver else Dispatch_uid d)"

definition connect ::
  "string \<Rightarrow> string option \<Rightarrow> (lookup_key \<times> string) list \<Rightarrow> (lookup_key \<times> string) list" where
  "connect receiver dispatch_uid rs =
     (if make_key receiver dispatch_uid \<in> set (map fst rs) then rs
      else rs @ [(make_key receiver dispatch_uid, receiver)])"

fun remove_key :: "lookup_key \<Rightarrow> (lookup_key \<times> string) list \<Rightarrow> bool \<times> (lookup_key \<times> string) list" where
  "remove_key k [] = (False, [])"
| "remove_key k (r # rs) =
     (if fst r = k then (True, rs)
      else (fst (remove_key k rs), r # snd (remove_key k rs)))"

definition disconnect ::
  "string \<Rightarrow> string option \<Rightarrow> (lookup_key \<times> string) list \<Rightarrow> bool \<times> (lookup_key \<times> string) list" where
  "disconnect receiver dispatch_uid rs = remove_key (make_key receiver dispatch_uid) rs"

text \<open>
  The receiver \<^verbatim>\<open>update_last_login\<close>: it sets \<^verbatim>\<open>user.last_login\<close> and saves that
  field. Saving one field needs a primary key (\<^verbatim>\<open>ValueError\<close>) and a row to update
  (\<^verbatim>\<open>DatabaseError\<close>).
\<close>

definition update_last_login :: "User \<Rightarrow> world \<Rightarrow> error option \<times> User \<times> world" where
  "update_last_login u w =
     (let u1 = u\<lparr>last_login := Some (time w)\<rparr> in
      case pk u1 of
        None \<Rightarrow> (Some ValueError, u1, w)
      | Some i \<Rightarrow>
          (case User_objects w i of
             None \<Rightarrow> (Some DatabaseError, u1, w)
           | Some row \<Rightarrow>
               (None, u1, w\<lparr>User_objects := (User_objects w)(i \<mapsto> row\<lparr>last_login := Some (time w)\<rparr>)\<rparr>)))"

text \<open>
  \<^verbatim>\<open>user_logged_in.send\<close> calls the receivers in the order they were connected. Only
  \<^verbatim>\<open>update_last_login\<close> has an effect in this model; a receiver's exception stops the
  send.
\<close>

fun send_user_logged_in ::
  "(lookup_key \<times> string) list \<Rightarrow> User \<Rightarrow> world \<Rightarrow> error option \<times> User \<times> world" where
  "send_user_logged_in [] u w = (None, u, w)"
| "send_user_logged_in (r # rs) u w =
     (if snd r = ''update_last_login''
      then (case update_last_login u w of
              (Some e, u1, w1) \<Rightarrow> (Some e, u1, w1)
            | (None, u1, w1) \<Rightarrow> send_user_logged_in rs u1 w1)
      else send_user_logged_in rs u w)"

text \<open>
  \<^verbatim>\<open>django.contrib.auth.login\<close>. A session that belongs to another user (or whose
  hash does not match) is flushed; the backend is the user's attribute, or the single
  configured one; then the three authentication keys are written, the user is attached
  to the request and the signal is sent. The rotation of the CSRF token is left out.
\<close>

definition session_belongs_to_other :: "(string \<rightharpoonup> sval) \<Rightarrow> User \<Rightarrow> error + bool" where
  "session_belongs_to_other s u =
     (case s SESSION_KEY of
        None \<Rightarrow> Inr False
      | Some (Token v t sg) \<Rightarrow> Inl ValidationError
      | Some (Str x) \<Rightarrow>
          (case int_of_str x of
             None \<Rightarrow> Inl ValidationError
           | Some i \<Rightarrow>
               Inr (Some i \<noteq> pk u \<or>
                    (session_auth_hash u \<noteq> [] \<and>
                     s HASH_SESSION_KEY \<noteq> Some (Str (session_auth_hash u))))))"

definition login_backend :: "config \<Rightarrow> User \<Rightarrow> error + string" where
  "login_backend cfg u =
     (case backend u of
        Some b \<Rightarrow> Inr b
      | None \<Rightarrow>
          (case AUTHENTICATION_BACKENDS cfg of
             [] \<Rightarrow> Inl ImproperlyConfigured
           | [b] \<Rightarrow> Inr b
           | _ \<Rightarrow> Inl ValueError))"

definition login :: "config \<Rightarrow> User \<Rightarrow> world \<Rightarrow> error option \<times> User \<times> world" where
  "login cfg u w =
     (case session (request w) of
        None \<Rightarrow> (Some AttributeError, u, w)
      | Some s \<Rightarrow>
          (case session_belongs_to_other s u of
             Inl e \<Rightarrow> (Some e, u, w)
           | Inr other \<Rightarrow>
               (let s1 = (if other then Map.empty else s);
                    w1 = w\<lparr>request := (request w)\<lparr>session := Some s1\<rparr>\<rparr>
                in case login_backend cfg u of
                     Inl e \<Rightarrow> (Some e, u, w1)
                   | Inr b \<Rightarrow>
                       (let s2 = s1(SESSION_KEY \<mapsto> Str (str_pk (pk u)),
                                    BACKEND_SESSION_KEY \<mapsto> Str b,
                                    HASH_SESSION_KEY \<mapsto> Str (session_auth_hash u));
                            w2 = w\<lparr>request := (request w)\<lparr>session := Some s2, user := u\<rparr>\<rparr>
                        in case send_user_logged_in (receivers w2) u w2 of
                             (e, u3, w3) \<Rightarrow> (e, u3, w3\<lparr>request := (request w3)\<lparr>user := u3\<rparr>\<rparr>)))))"

text \<open>\<^verbatim>\<open>django.contrib.auth.logout\<close>: the session is flushed and the user is anonymous.\<close>

definition logout :: "world \<Rightarrow> error option \<times> world" where
  "logout w =
     (case session (request w) of
        None \<Rightarrow> (Some AttributeError, w)
      | Some s \<Rightarrow>
          (None, w\<lparr>request := (request w)\<lparr>session := Some Map.empty, user := AnonymousUser\<rparr>\<rparr>))"

text \<open>
  \<^verbatim>\<open>messages.add_message\<close>: without a message storage it raises; an empty message is
  not stored. The storage's minimum level is taken at its default, which records both
  levels the module uses.
\<close>

definition add_message :: "HttpRequest \<Rightarrow> nat \<Rightarrow> string \<Rightarrow> string \<Rightarrow> error + HttpRequest" where
  "add_message r lvl m tags =
     (case messages r of
        None \<Rightarrow> Inl MessageFailure
      | Some ms \<Rightarrow>
          if m = [] then Inr r
          else Inr (r\<lparr>messages := Some (ms @ [\<lparr>level = lvl, message = m, extra_tags = tags\<rparr>])\<rparr>))"

text \<open>
  \<^verbatim>\<open>LogEntry.objects.log_action\<close>: one more row; the object's text is cut at 200.
  The row's user is a foreign key to the user table that cannot be null: the insert
  raises \<^verbatim>\<open>IntegrityError\<close> when \<open>uid\<close> is \<^verbatim>\<open>None\<close> or has no row there (the
  constraint is taken to be checked with the statement, as it is outside a transaction).
\<close>

definition log_action ::
  "int option \<Rightarrow> int \<Rightarrow> int option \<Rightarrow> string \<Rightarrow> string \<Rightarrow> nat \<Rightarrow> world \<Rightarrow> error + world" where
  "log_action uid ct oid orepr msg flag w =
     (case uid of
        None \<Rightarrow> Inl IntegrityError
      | Some i \<Rightarrow>
          if User_objects w i = None then Inl IntegrityError
          else Inr (w\<lparr>LogEntry_objects := LogEntry_objects w @
                 [\<lparr>user_id = uid, content_type_id = ct, object_id = str_pk oid,
                   object_repr = take 200 orepr, change_message = msg, action_flag = flag\<rparr>]\<rparr>))"

text \<open>
  \<^verbatim>\<open>get_user_model().objects.get(pk=text)\<close>: the text is converted by the key field,
  the row is looked up, and the instance returned is a fresh object (no
  \<^verbatim>\<open>backend\<close> attribute).
\<close>

definition objects_get :: "(int \<rightharpoonup> User) \<Rightarrow> string \<Rightarrow> error + User" where
  "objects_get db v =
     (case int_of_str v of
        None \<Rightarrow> Inl ValueError
      | Some i \<Rightarrow>
          (case db i of
             None \<Rightarrow> Inl DoesNotExist
           | Some row \<Rightarrow> Inr (row\<lparr>pk := Some i, backend := None\<rparr>)))"

subsection \<open>The module\<close>

text \<open>
  \<^verbatim>\<open>no_update_last_login\<close> (lines 22-38), applied to the body of its \<^verbatim>\<open>with\<close>
  block. The second \<^verbatim>\<open>disconnect\<close> runs only when the first found nothing. The code
  after \<^verbatim>\<open>yield\<close> is not in a \<^verbatim>\<open>finally\<close>: when the body raises, nothing is
  reconnected.
\<close>

definition no_update_last_login ::
  "(world \<Rightarrow> error option \<times> User \<times> world) \<Rightarrow> world \<Rightarrow> error option \<times> User \<times> world" where
  "no_update_last_login body w =
     (let d = disconnect ''update_last_login'' None (receivers w);
          was_connected = fst d;
          d_id = (if was_connected then (False, snd d)
                  else disconnect ''update_last_login'' (Some ''update_last_login'') (snd d));
          was_connected_id = fst d_id
      in case body (w\<lparr>receivers := snd d_id\<rparr>) of
           (Some e, u1, w1) \<Rightarrow> (Some e, u1, w1)
         | (None, u1, w1) \<Rightarrow>
             (None, u1,
              if was_connected
              then w1\<lparr>receivers := connect ''update_last_login'' None (receivers w1)\<rparr>
              else if was_connected_id
              then w1\<lparr>receivers :=
                        connect ''update_last_login'' (Some ''update_last_login'') (receivers w1)\<rparr>
              else w1))"

text \<open>
  The search for a backend (the \<^verbatim>\<open>for\<close> ... \<^verbatim>\<open>else\<close> of \<^verbatim>\<open>login_as\<close>, lines
  52-60): the first configured backend that has \<^verbatim>\<open>get_user\<close> and loads a user equal
  to the target.
\<close>

fun find_backend :: "config \<Rightarrow> (int \<rightharpoonup> User) \<Rightarrow> User \<Rightarrow> string list \<Rightarrow> string option" where
  "find_backend cfg db u [] = None"
| "find_backend cfg db u (b # bs) =
     (if \<not> has_get_user (load_backend cfg b) then find_backend cfg db u bs
      else if user_eq u (get_user (load_backend cfg b) db (pk u)) then Some b
      else find_backend cfg db u bs)"

text \<open>
  Lines 50-60: a user that has a \<^verbatim>\<open>backend\<close> attribute keeps it; otherwise the
  backend found is set on the user, and \<^verbatim>\<open>ImproperlyConfigured\<close> is raised when the
  loop ends without one.
\<close>

definition suitable_backend :: "config \<Rightarrow> (int \<rightharpoonup> User) \<Rightarrow> User \<Rightarrow> error + User" where
  "suitable_backend cfg db u =
     (if backend u = None
      then (case find_backend cfg db u (AUTHENTICATION_BACKENDS cfg) of
              None \<Rightarrow> Inl ImproperlyConfigured
            | Some b \<Rightarrow> Inr (u\<lparr>backend := Some b\<rparr>))
      else Inr u)"

text \<open>
  Lines 85-91, under \<^verbatim>\<open>if store_original_user\<close>: the user name is read from
  \<^verbatim>\<open>user.__dict__\<close>, the warning is queued, and the original key is signed into the
  session.
\<close>

definition set_session_flag :: "config \<Rightarrow> int option \<Rightarrow> User \<Rightarrow> world \<Rightarrow> error option \<times> User \<times> world" where
  "set_session_flag cfg original_user_pk u w =
     (case dict u (USERNAME_FIELD cfg) of
        None \<Rightarrow> (Some KeyError, u, w)
      | Some username \<Rightarrow>
          (case add_message (request w) WARNING (MESSAGE_LOGIN_SWITCH cfg username)
                  (MESSAGE_EXTRA_TAGS cfg) of
             Inl e \<Rightarrow> (Some e, u, w)
           | Inr r \<Rightarrow>
               (case session r of
                  None \<Rightarrow> (Some AttributeError, u, w\<lparr>request := r\<rparr>)
                | Some s \<Rightarrow>
                    (None, u,
                     w\<lparr>request :=
                         r\<lparr>session :=
                             Some (s(USER_SESSION_FLAG cfg \<mapsto>
                                      sign cfg (str_pk original_user_pk) (time w)))\<rparr>\<rparr>))))"

text \<open>
  Lines 62-72: the audit entry, written when the original key is true; an exception of
  the insert leaves the world as it was.
\<close>

definition add_audit_log_entry :: "config \<Rightarrow> int option \<Rightarrow> User \<Rightarrow> world \<Rightarrow> error option \<times> world" where
  "add_audit_log_entry cfg original_user_pk u w =
     (if truthy_pk original_user_pk
      then (case log_action original_user_pk (user_content_type cfg) (pk u) (to_str u)
                   (''User '' @ to_str (user (request w)) @ '' logged in as '' @ to_str u @ ''.'')
                   CHANGE w of
              Inl e \<Rightarrow> (Some e, w)
            | Inr w1 \<Rightarrow> (None, w1))
      else (None, w))"

text \<open>Lines 78-82: the login, inside the context manager when the setting is off.\<close>

definition log_the_user_in :: "config \<Rightarrow> User \<Rightarrow> world \<Rightarrow> error option \<times> User \<times> world" where
  "log_the_user_in cfg u w =
     (if UPDATE_LAST_LOGIN cfg then login cfg u w
      else no_update_last_login (login cfg u) w)"

text \<open>
  \<^verbatim>\<open>login_as\<close> (lines 41-91). The result is the exception raised (if any), the
  target user object as the call left it, and the world. The target is an object of its
  own: the user the request holds before the call is not changed by setting the target's
  backend.
\<close>

definition login_as :: "config \<Rightarrow> User \<Rightarrow> world \<Rightarrow> bool \<Rightarrow> error option \<times> User \<times> world" where
  "login_as cfg u w store_original_user =
     (let original_user_pk = pk (user (request w)) in
      case suitable_backend cfg (User_objects w) u of
        Inl e \<Rightarrow> (Some e, u, w)
      | Inr u1 \<Rightarrow>
          (case add_audit_log_entry cfg original_user_pk u1 w of
             (Some e, w1) \<Rightarrow> (Some e, u1, w1)
           | (None, w1) \<Rightarrow>
               if backend u1 = None then (None, u1, w1)
               else (case log_the_user_in cfg u1 w1 of
                       (Some e, u2, w2) \<Rightarrow> (Some e, u2, w2)
                     | (None, u2, w2) \<Rightarrow>
                         if store_original_user then set_session_flag cfg original_user_pk u2 w2
                         else (None, u2, w2))))"

text \<open>
  Lines 108-116, the body of the \<^verbatim>\<open>try\<close> of \<^verbatim>\<open>restore_original_login\<close> after
  the token is unsigned: load the user, announce the switch back, log in, drop the flag.
\<close>

definition revert_login :: "config \<Rightarrow> string \<Rightarrow> world \<Rightarrow> error option \<times> world" where
  "revert_login cfg original_user_pk w =
     (case objects_get (User_objects w) original_user_pk of
        Inl e \<Rightarrow> (Some e, w)
      | Inr u \<Rightarrow>
          (case dict u (USERNAME_FIELD cfg) of
             None \<Rightarrow> (Some KeyError, w)
           | Some username \<Rightarrow>
               (case add_message (request w) INFO (MESSAGE_LOGIN_REVERT cfg username)
                       (MESSAGE_EXTRA_TAGS cfg) of
                  Inl e \<Rightarrow> (Some e, w)
                | Inr r \<Rightarrow>
                    (case login_as cfg u (w\<lparr>request := r\<rparr>) False of
                       (Some e, u2, w2) \<Rightarrow> (Some e, w2)
                     | (None, u2, w2) \<Rightarrow>
                         (case session (request w2) of
                            None \<Rightarrow> (Some AttributeError, w2)
                          | Some s2 \<Rightarrow>
                              (None,
                               w2\<lparr>request :=
                                   (request w2)\<lparr>session :=
                                     Some (s2(USER_SESSION_FLAG cfg := None))\<rparr>\<rparr>))))))"

text \<open>
  \<^verbatim>\<open>restore_original_login\<close> (lines 94-118). A flag that is missing or the empty
  text is false for \<^verbatim>\<open>if not original_session\<close>; of the exceptions of the
  \<^verbatim>\<open>try\<close> (the unsigning and all that follows it) only \<^verbatim>\<open>SignatureExpired\<close> is
  caught. The maximum age is the configured number of days in seconds.
\<close>

definition restore_original_login :: "config \<Rightarrow> world \<Rightarrow> error option \<times> world" where
  "restore_original_login cfg w =
     (case session (request w) of
        None \<Rightarrow> (Some AttributeError, w)
      | Some s \<Rightarrow>
          (let original_session = s (USER_SESSION_FLAG cfg) in
           case logout w of
             (Some e, w1) \<Rightarrow> (Some e, w1)
           | (None, w1) \<Rightarrow>
               (case original_session of
                  None \<Rightarrow> (None, w1)
                | Some signed \<Rightarrow>
                    if signed = Str [] then (None, w1)
                    else (case (case unsign cfg signed (USER_SESSION_DAYS_TIMESTAMP cfg * 86400)
                                       (time w1) of
                                  Inl e \<Rightarrow> (Some e, w1)
                                | Inr original_user_pk \<Rightarrow> revert_login cfg original_user_pk w1) of
                            (Some e, w2) \<Rightarrow> (if e = SignatureExpired then (None, w2) else (Some e, w2))
                          | (None, w2) \<Rightarrow> (None, w2)))))"

text \<open>\<^verbatim>\<open>is_impersonated_session\<close> (lines 121-125).\<close>

definition is_impersonated_session :: "config \<Rightarrow> HttpRequest \<Rightarrow> bool" where
  "is_impersonated_session cfg r =
     (case session r of None \<Rightarrow> False | Some s \<Rightarrow> s (USER_SESSION_FLAG cfg) \<noteq> None)"

subsection \<open>What the specification calls a suitable backend\<close>

text \<open>
  In the words of the specification: a configured backend that exposes \<^verbatim>\<open>get_user\<close>
  and returns a user equal to the target when loading the target's primary key. The
  search of \<^verbatim>\<open>login_as\<close> is \<open>find_backend\<close>; the two are compared below.
\<close>

definition suitable :: "config \<Rightarrow> (int \<rightharpoonup> User) \<Rightarrow> User \<Rightarrow> string \<Rightarrow> bool" where
  "suitable cfg db u b =
     (has_get_user (load_backend cfg b) \<and> user_eq u (get_user (load_backend cfg b) db (pk u)))"

subsection \<open>An example installation\<close>

text \<open>
  A backend in the manner of the framework's model backend: it loads the row of the
  key as a fresh user object.
\<close>

definition ModelBackend :: backend_obj where
  "ModelBackend =
     \<lparr>has_get_user = True,
      get_user = (\<lambda>db p. case p of
                    None \<Rightarrow> None
                  | Some i \<Rightarrow> (case db i of
                                None \<Rightarrow> None
                              | Some row \<Rightarrow> Some (row\<lparr>pk := Some i, backend := None\<rparr>)))\<rparr>"

definition example_config :: config where
  "example_config =
     \<lparr>AUTHENTICATION_BACKENDS = [''ModelBackend''],
      load_backend = (\<lambda>path. ModelBackend),
      UPDATE_LAST_LOGIN = False,
      USER_SESSION_FLAG = ''loginas_from_user'',
      USER_SESSION_DAYS_TIMESTAMP = 2,
      MESSAGE_LOGIN_SWITCH = (\<lambda>username. ''Your login is now switched to '' @ username),
      MESSAGE_LOGIN_REVERT = (\<lambda>username. ''Your login is now reverted to '' @ username),
      MESSAGE_EXTRA_TAGS = [],
      USERNAME_FIELD = ''username'',
      signature = (\<lambda>v t. ''mac('' @ v @ '','' @ str_int t @ '')''),
      user_content_type = 4\<rparr>"

definition admin :: User where
  "admin =
     \<lparr>pk = Some 1, backend = None, dict = [''username'' \<mapsto> ''admin''], to_str = ''admin'',
      session_auth_hash = ''h1'', last_login = None\<rparr>"

definition alice :: User where
  "alice =
     \<lparr>pk = Some 2, backend = None, dict = [''username'' \<mapsto> ''alice''], to_str = ''alice'',
      session_auth_hash = ''h2'', last_login = None\<rparr>"

definition admin_session :: "string \<rightharpoonup> sval" where
  "admin_session =
     [SESSION_KEY \<mapsto> Str ''1'', BACKEND_SESSION_KEY \<mapsto> Str ''ModelBackend'',
      HASH_SESSION_KEY \<mapsto> Str ''h1'']"

text \<open>The administrator is logged in; two receivers listen to \<^verbatim>\<open>user_logged_in\<close>.\<close>

definition example_world :: world where
  "example_world =
     \<lparr>request =
        \<lparr>user = admin\<lparr>backend := Some ''ModelBackend''\<rparr>,
         session = Some admin_session,
         messages = Some []\<rparr>,
      LogEntry_objects = [],
      receivers = [(Dispatch_uid ''update_last_login'', ''update_last_login''),
                   (Receiver_id ''notify_staff'', ''notify_staff'')],
      User_objects = [1 \<mapsto> admin, 2 \<mapsto> alice],
      time = 1000\<rparr>"

text \<open>The same world after the administrator has logged in as the second user.\<close>

definition impersonating_session :: "string \<rightharpoonup> sval" where
  "impersonating_session =
     [SESSION_KEY \<mapsto> Str ''2'', BACKEND_SESSION_KEY \<mapsto> Str ''ModelBackend'',
      HASH_SESSION_KEY \<mapsto> Str ''h2'',
      ''loginas_from_user'' \<mapsto> Token ''1'' 1000 ''mac(1,1000)'']"

definition impersonating_world :: world where
  "impersonating_world =
     \<lparr>request =
        \<lparr>user = alice\<lparr>backend := Some ''ModelBackend''\<rparr>,
         session = Some impersonating_session,
         messages = Some [\<lparr>level = 30, message = ''Your login is now switched to alice'',
                           extra_tags = []\<rparr>]\<rparr>,
      LogEntry_objects =
        [\<lparr>user_id = Some 1, content_type_id = 4, object_id = ''2'', object_repr = ''alice'',
          change_message = ''User admin logged in as alice.'', action_flag = 2\<rparr>],
      receivers = [(Receiver_id ''notify_staff'', ''notify_staff''),
                   (Dispatch_uid ''update_last_login'', ''update_last_login'')],
      User_objects = [1 \<mapsto> admin, 2 \<mapsto> alice],
      time = 1000\<rparr>"

text \<open>The impersonating world after the switch back.\<close>

definition restored_world :: world where
  "restored_world =
     impersonating_world
       \<lparr>request :=
          \<lparr>user = admin\<lparr>backend := Some ''ModelBackend''\<rparr>,
           session = Some admin_session,
           messages = Some [\<lparr>level = 30, message = ''Your login is now switched to alice'',
                             extra_tags = []\<rparr>,
                            \<lparr>level = 20, message = ''Your login is now reverted to admin'',
                             extra_tags = []\<rparr>]\<rparr>\<rparr>"

text \<open>A request of a visitor who is not logged in, with an empty session.\<close>

definition anonymous_world :: world where
  "anonymous_world =
     example_world\<lparr>request := \<lparr>user = AnonymousUser, session = Some Map.empty, messages = Some []\<rparr>\<rparr>"

text \<open>The impersonating world a minute later, the administrator's row deleted.\<close>

definition admin_deleted_world :: world where
  "admin_deleted_world = impersonating_world\<lparr>User_objects := [2 \<mapsto> alice], time := 1060\<rparr>"


text \<open>The example world with a request that has no session.\<close>

definition sessionless_world :: world where
  "sessionless_world = example_world\<lparr>request := (request example_world)\<lparr>session := None\<rparr>\<rparr>"

section \<open>Lemmas\<close>

subsection \<open>The text of a primary key reads back\<close>

lemma digit_val_digit_char: "d < 10 \<Longrightarrow> digit_val (digit_char d) = Some d"
proof -
  assume "d < 10"
  then consider "d = 0" | "d = 1" | "d = 2" | "d = 3" | "d = 4" | "d = 5" | "d = 6" | "d = 7"
    | "d = 8" | "d = 9"
    by atomize_elim arith
  then show ?thesis
    by cases (simp_all add: digit_val_def digit_char_def)
qed

lemma digit_char_not_minus: "d < 10 \<Longrightarrow> digit_char d \<noteq> CHR ''-''"
proof -
  assume "d < 10"
  then have "digit_val (digit_char d) = Some d"
    by (rule digit_val_digit_char)
  moreover have "digit_val CHR ''-'' = None"
    by (simp add: digit_val_def)
  ultimately show ?thesis
    by auto
qed

lemma nat_of_digits_snoc:
  "nat_of_digits acc (cs @ [c]) =
     (case nat_of_digits acc cs of
        None \<Rightarrow> None
      | Some m \<Rightarrow> (case digit_val c of None \<Rightarrow> None | Some d \<Rightarrow> Some (m * 10 + d)))"
  by (induction cs arbitrary: acc) (auto split: option.splits)

lemma nat_of_digits_str_nat: "nat_of_digits 0 (str_nat n) = Some n"
proof (induction n rule: str_nat.induct)
  case (1 n)
  show ?case
  proof (cases "n < 10")
    case True
    then show ?thesis
      by (subst str_nat.simps) (simp add: digit_val_digit_char)
  next
    case False
    then have "nat_of_digits 0 (str_nat (n div 10)) = Some (n div 10)"
      using "1.IH" by simp
    moreover have "digit_val (digit_char (n mod 10)) = Some (n mod 10)"
      by (simp add: digit_val_digit_char)
    ultimately show ?thesis
      using False by (subst str_nat.simps) (simp add: nat_of_digits_snoc)
  qed
qed

lemma str_nat_first: "\<exists>d cs. d < 10 \<and> str_nat n = digit_char d # cs"
proof (induction n rule: str_nat.induct)
  case (1 n)
  show ?case
  proof (cases "n < 10")
    case True
    then show ?thesis
      by (subst str_nat.simps) auto
  next
    case False
    then obtain d cs where "d < 10" "str_nat (n div 10) = digit_char d # cs"
      using "1.IH" by auto
    then show ?thesis
      using False by (subst str_nat.simps) auto
  qed
qed

lemma int_of_str_str_int: "int_of_str (str_int i) = Some i"
proof -
  obtain d cs where d: "d < 10" "str_nat (nat \<bar>i\<bar>) = digit_char d # cs"
    using str_nat_first by blast
  have r: "nat_of_digits 0 (str_nat (nat \<bar>i\<bar>)) = Some (nat \<bar>i\<bar>)"
    by (rule nat_of_digits_str_nat)
  show ?thesis
  proof (cases "i < 0")
    case True
    then have "str_int i = CHR ''-'' # str_nat (nat \<bar>i\<bar>)"
      by (simp add: str_int_def abs_if)
    then show ?thesis
      using True r d by (simp add: int_of_str_def)
  next
    case False
    then have s: "str_int i = str_nat (nat \<bar>i\<bar>)"
      by (simp add: str_int_def abs_if)
    have "digit_char d \<noteq> CHR ''-''"
      using d(1) by (rule digit_char_not_minus)
    then have "int_of_str (digit_char d # cs) = map_option int (nat_of_digits 0 (digit_char d # cs))"
      by (simp add: int_of_str_def)
    then show ?thesis
      using False r d s by simp
  qed
qed

lemma int_of_str_str_pk: "int_of_str (str_pk (Some i)) = Some i"
  by (simp add: str_pk_def int_of_str_str_int)

lemma int_of_str_None: "int_of_str (str_pk None) = None"
  by (simp add: str_pk_def int_of_str_def digit_val_def)

subsection \<open>The login signal\<close>

lemma update_last_login_frame:
  assumes "update_last_login u w = (e, u1, w1)"
  shows "request w1 = request w" "receivers w1 = receivers w"
    "LogEntry_objects w1 = LogEntry_objects w" "time w1 = time w"
    "u1\<lparr>last_login := last_login u\<rparr> = u"
    "e \<in> {None, Some ValueError, Some DatabaseError}"
  using assms by (auto simp: update_last_login_def Let_def split: option.splits)

lemma update_last_login_ok:
  assumes "pk u = Some i" "User_objects w i \<noteq> None"
  shows "fst (update_last_login u w) = None"
    "User_objects (snd (snd (update_last_login u w))) i \<noteq> None"
  using assms by (auto simp: update_last_login_def Let_def split: option.splits)

lemma send_user_logged_in_frame:
  "send_user_logged_in rs u w = (e, u1, w1) \<Longrightarrow>
     request w1 = request w \<and> receivers w1 = receivers w \<and>
     LogEntry_objects w1 = LogEntry_objects w \<and> time w1 = time w \<and>
     u1\<lparr>last_login := last_login u\<rparr> = u \<and>
     e \<in> {None, Some ValueError, Some DatabaseError}"
proof (induction rs arbitrary: u w)
  case Nil
  then show ?case by simp
next
  case (Cons r rs)
  show ?case
  proof (cases "snd r = ''update_last_login''")
    case False
    then show ?thesis
      using Cons by simp
  next
    case True
    obtain e2 u2 w2 where up: "update_last_login u w = (e2, u2, w2)"
      by (cases "update_last_login u w") auto
    note fr = update_last_login_frame [OF up]
    show ?thesis
    proof (cases e2)
      case (Some err)
      then show ?thesis
        using Cons.prems True up fr by auto
    next
      case None
      then have "send_user_logged_in rs u2 w2 = (e, u1, w1)"
        using Cons.prems True up by simp
      from Cons.IH [OF this] have
        "request w1 = request w2" "receivers w1 = receivers w2"
        "LogEntry_objects w1 = LogEntry_objects w2" "time w1 = time w2"
        "u1\<lparr>last_login := last_login u2\<rparr> = u2"
        "e \<in> {None, Some ValueError, Some DatabaseError}"
        by auto
      moreover have "u1\<lparr>last_login := last_login u\<rparr> = u"
      proof -
        have "u1\<lparr>last_login := last_login u\<rparr> = (u1\<lparr>last_login := last_login u2\<rparr>)\<lparr>last_login := last_login u\<rparr>"
          by simp
        also have "\<dots> = u2\<lparr>last_login := last_login u\<rparr>"
          using \<open>u1\<lparr>last_login := last_login u2\<rparr> = u2\<close> by simp
        finally show ?thesis
          using fr(5) by simp
      qed
      ultimately show ?thesis
        using fr by simp
    qed
  qed
qed

lemma send_user_logged_in_ok:
  "pk u = Some i \<Longrightarrow> User_objects w i \<noteq> None \<Longrightarrow> fst (send_user_logged_in rs u w) = None"
proof (induction rs arbitrary: u w)
  case Nil
  then show ?case by simp
next
  case (Cons r rs)
  show ?case
  proof (cases "snd r = ''update_last_login''")
    case False
    then show ?thesis
      using Cons by simp
  next
    case True
    obtain e2 u2 w2 where up: "update_last_login u w = (e2, u2, w2)"
      by (cases "update_last_login u w") auto
    have "e2 = None" "User_objects w2 i \<noteq> None"
      using update_last_login_ok [OF Cons.prems] up by simp_all
    moreover have "pk u2 = Some i"
      using up Cons.prems by (auto simp: update_last_login_def Let_def split: option.splits)
    ultimately show ?thesis
      using Cons.IH [of u2 w2] True up by simp
  qed
qed

subsection \<open>Login\<close>

lemma login_backend_present: "backend u = Some b \<Longrightarrow> login_backend cfg u = Inr b"
  by (simp add: login_backend_def)

text \<open>What a login that went through has done.\<close>

lemma login_frame:
  assumes "login cfg u w = (e, u1, w1)"
  shows "receivers w1 = receivers w" "LogEntry_objects w1 = LogEntry_objects w"
    "time w1 = time w" "messages (request w1) = messages (request w)"
    "u1\<lparr>last_login := last_login u\<rparr> = u"
proof -
  have "receivers w1 = receivers w \<and> LogEntry_objects w1 = LogEntry_objects w \<and>
    time w1 = time w \<and> messages (request w1) = messages (request w) \<and>
    u1\<lparr>last_login := last_login u\<rparr> = u"
  proof (cases "session (request w)")
    case None
    then show ?thesis
      using assms by (simp add: login_def)
  next
    case (Some s)
    show ?thesis
    proof (cases "session_belongs_to_other s u")
      case (Inl err)
      then show ?thesis
        using assms Some by (simp add: login_def)
    next
      case (Inr other)
      show ?thesis
      proof (cases "login_backend cfg u")
        case (Inl err)
        then show ?thesis
          using assms Some Inr by (auto simp: login_def Let_def)
      next
        case b: (Inr b)
        define s2 where "s2 = (if other then Map.empty else s)
          (SESSION_KEY \<mapsto> Str (str_pk (pk u)), BACKEND_SESSION_KEY \<mapsto> Str b,
           HASH_SESSION_KEY \<mapsto> Str (session_auth_hash u))"
        define w2 where "w2 = w\<lparr>request := (request w)\<lparr>session := Some s2, user := u\<rparr>\<rparr>"
        obtain e3 u3 w3 where snd: "send_user_logged_in (receivers w2) u w2 = (e3, u3, w3)"
          by (cases "send_user_logged_in (receivers w2) u w2") auto
        have res: "e = e3 \<and> u1 = u3 \<and> w1 = w3\<lparr>request := (request w3)\<lparr>user := u3\<rparr>\<rparr>"
          using assms Some Inr b snd by (auto simp: login_def Let_def s2_def w2_def)
        from send_user_logged_in_frame [OF snd] show ?thesis
          using res by (auto simp: w2_def)
      qed
    qed
  qed
  then show "receivers w1 = receivers w" "LogEntry_objects w1 = LogEntry_objects w"
    "time w1 = time w" "messages (request w1) = messages (request w)"
    "u1\<lparr>last_login := last_login u\<rparr> = u"
    by simp_all
qed

lemma login_errors:
  assumes "login cfg u w = (Some e, u1, w1)" "backend u \<noteq> None"
  shows "e \<in> {AttributeError, ValidationError, ValueError, DatabaseError}"
proof (cases "session (request w)")
  case None
  then show ?thesis
    using assms by (simp add: login_def)
next
  case (Some s)
  obtain b where b: "backend u = Some b"
    using assms(2) by auto
  show ?thesis
  proof (cases "session_belongs_to_other s u")
    case (Inl err)
    then have "err = ValidationError"
      by (auto simp: session_belongs_to_other_def split: option.splits sval.splits)
    then show ?thesis
      using assms Some Inl by (simp add: login_def)
  next
    case (Inr other)
    define s2 where "s2 = (if other then Map.empty else s)
      (SESSION_KEY \<mapsto> Str (str_pk (pk u)), BACKEND_SESSION_KEY \<mapsto> Str b,
       HASH_SESSION_KEY \<mapsto> Str (session_auth_hash u))"
    define w2 where "w2 = w\<lparr>request := (request w)\<lparr>session := Some s2, user := u\<rparr>\<rparr>"
    obtain e3 u3 w3 where snd: "send_user_logged_in (receivers w2) u w2 = (e3, u3, w3)"
      by (cases "send_user_logged_in (receivers w2) u w2") auto
    have "e3 = Some e"
      using assms Some Inr b snd
      by (simp add: login_def Let_def s2_def w2_def login_backend_present)
    then show ?thesis
      using send_user_logged_in_frame [OF snd] by auto
  qed
qed

lemma login_done:
  assumes "login cfg u w = (None, u1, w1)" "backend u = Some b"
  shows "user (request w1) = u1"
    "\<exists>s. session (request w1) = Some s \<and> s SESSION_KEY = Some (Str (str_pk (pk u))) \<and>
         s BACKEND_SESSION_KEY = Some (Str b)"
proof -
  obtain s where Some: "session (request w) = Some s"
    using assms by (cases "session (request w)") (auto simp: login_def)
  obtain other where Inr: "session_belongs_to_other s u = Inr other"
    using assms Some by (cases "session_belongs_to_other s u") (auto simp: login_def)
  define s2 where "s2 = (if other then Map.empty else s)
    (SESSION_KEY \<mapsto> Str (str_pk (pk u)), BACKEND_SESSION_KEY \<mapsto> Str b,
     HASH_SESSION_KEY \<mapsto> Str (session_auth_hash u))"
  define w2 where "w2 = w\<lparr>request := (request w)\<lparr>session := Some s2, user := u\<rparr>\<rparr>"
  obtain e3 u3 w3 where snd: "send_user_logged_in (receivers w2) u w2 = (e3, u3, w3)"
    by (cases "send_user_logged_in (receivers w2) u w2") auto
  have res: "e3 = None \<and> u1 = u3 \<and> w1 = w3\<lparr>request := (request w3)\<lparr>user := u3\<rparr>\<rparr>"
    using assms Some Inr snd by (auto simp: login_def Let_def s2_def w2_def login_backend_present)
  have req: "request w3 = request w2"
    using send_user_logged_in_frame [OF snd] by simp
  show "user (request w1) = u1"
    using res by auto
  have "session (request w1) = Some s2"
    using res req by (auto simp: w2_def)
  moreover have "s2 SESSION_KEY = Some (Str (str_pk (pk u)))" "s2 BACKEND_SESSION_KEY = Some (Str b)"
    by (simp_all add: s2_def SESSION_KEY_def BACKEND_SESSION_KEY_def HASH_SESSION_KEY_def)
  ultimately show "\<exists>s. session (request w1) = Some s \<and> s SESSION_KEY = Some (Str (str_pk (pk u))) \<and>
         s BACKEND_SESSION_KEY = Some (Str b)"
    by simp
qed

lemma session_belongs_to_other_fresh:
  "s SESSION_KEY = None \<Longrightarrow> session_belongs_to_other s u = Inr False"
  by (simp add: session_belongs_to_other_def)

lemma login_succeeds:
  assumes "session (request w) = Some s" "s SESSION_KEY = None" "backend u = Some b"
    "pk u = Some i" "User_objects w i \<noteq> None"
  shows "fst (login cfg u w) = None"
proof -
  define s2 where "s2 = s(SESSION_KEY \<mapsto> Str (str_pk (pk u)), BACKEND_SESSION_KEY \<mapsto> Str b,
     HASH_SESSION_KEY \<mapsto> Str (session_auth_hash u))"
  define w2 where "w2 = w\<lparr>request := (request w)\<lparr>session := Some s2, user := u\<rparr>\<rparr>"
  have "User_objects w2 i \<noteq> None"
    using assms(5) by (simp add: w2_def)
  then have "fst (send_user_logged_in (receivers w2) u w2) = None"
    using assms(4) by (simp add: send_user_logged_in_ok)
  then obtain u3 w3 where "send_user_logged_in (receivers w2) u w2 = (None, u3, w3)"
    by (cases "send_user_logged_in (receivers w2) u w2") auto
  then show ?thesis
    using assms(1,2,3)
    by (simp add: login_def Let_def session_belongs_to_other_fresh login_backend_present
        s2_def w2_def)
qed

text \<open>The context manager runs its body on the world with the receiver disconnected.\<close>

lemma no_update_last_login_body:
  assumes "no_update_last_login body w = (e, u1, w1)"
  shows "\<exists>rs2 rs3 w2. body (w\<lparr>receivers := rs2\<rparr>) = (e, u1, w2) \<and> w1 = w2\<lparr>receivers := rs3\<rparr>"
proof -
  define d where "d = disconnect ''update_last_login'' None (receivers w)"
  define d_id where "d_id = (if fst d then (False, snd d)
     else disconnect ''update_last_login'' (Some ''update_last_login'') (snd d))"
  obtain e2 u2 w2 where b: "body (w\<lparr>receivers := snd d_id\<rparr>) = (e2, u2, w2)"
    by (cases "body (w\<lparr>receivers := snd d_id\<rparr>)") auto
  have *: "no_update_last_login body w =
    (case (e2, u2, w2) of
       (Some e, u1, w1) \<Rightarrow> (Some e, u1, w1)
     | (None, u1, w1) \<Rightarrow>
         (None, u1,
          if fst d then w1\<lparr>receivers := connect ''update_last_login'' None (receivers w1)\<rparr>
          else if fst d_id
          then w1\<lparr>receivers := connect ''update_last_login'' (Some ''update_last_login'') (receivers w1)\<rparr>
          else w1))"
    unfolding no_update_last_login_def Let_def d_def [symmetric] d_id_def [symmetric] b ..
  have "e = e2 \<and> u1 = u2 \<and> (\<exists>rs3. w1 = w2\<lparr>receivers := rs3\<rparr>)"
  proof (cases e2)
    case None
    then have "e = e2 \<and> u1 = u2 \<and> w1 = w2\<lparr>receivers := receivers w1\<rparr>"
      using assms * by (auto split: if_splits)
    then show ?thesis
      by blast
  next
    case (Some err)
    then have "e = e2 \<and> u1 = u2 \<and> w1 = w2\<lparr>receivers := receivers w2\<rparr>"
      using assms * by auto
    then show ?thesis
      by blast
  qed
  then show ?thesis
    using b by blast
qed

lemma no_update_last_login_login_frame:
  assumes "no_update_last_login (login cfg u) w = (e, u1, w1)"
  shows "LogEntry_objects w1 = LogEntry_objects w" "time w1 = time w"
    "messages (request w1) = messages (request w)" "u1\<lparr>last_login := last_login u\<rparr> = u"
proof -
  obtain rs2 rs3 w2 where b: "login cfg u (w\<lparr>receivers := rs2\<rparr>) = (e, u1, w2)"
    and w1: "w1 = w2\<lparr>receivers := rs3\<rparr>"
    using no_update_last_login_body [OF assms] by blast
  note fr = login_frame [OF b]
  show "LogEntry_objects w1 = LogEntry_objects w" "time w1 = time w"
    "messages (request w1) = messages (request w)" "u1\<lparr>last_login := last_login u\<rparr> = u"
    using fr w1 by simp_all
qed

lemma no_update_last_login_login_errors:
  assumes "no_update_last_login (login cfg u) w = (Some e, u1, w1)" "backend u \<noteq> None"
  shows "e \<in> {AttributeError, ValidationError, ValueError, DatabaseError}"
proof -
  obtain rs2 w2 where b: "login cfg u (w\<lparr>receivers := rs2\<rparr>) = (Some e, u1, w2)"
    using no_update_last_login_body [OF assms(1)] by blast
  then show ?thesis
    using login_errors assms(2) by blast
qed

lemma no_update_last_login_login_done:
  assumes "no_update_last_login (login cfg u) w = (None, u1, w1)" "backend u = Some b"
  shows "user (request w1) = u1"
    "\<exists>s. session (request w1) = Some s \<and> s SESSION_KEY = Some (Str (str_pk (pk u))) \<and>
         s BACKEND_SESSION_KEY = Some (Str b)"
proof -
  obtain rs2 rs3 w2 where b: "login cfg u (w\<lparr>receivers := rs2\<rparr>) = (None, u1, w2)"
    and w1: "w1 = w2\<lparr>receivers := rs3\<rparr>"
    using no_update_last_login_body [OF assms(1)] by blast
  note d = login_done [OF b assms(2)]
  show "user (request w1) = u1"
    using d(1) w1 by simp
  show "\<exists>s. session (request w1) = Some s \<and> s SESSION_KEY = Some (Str (str_pk (pk u))) \<and>
         s BACKEND_SESSION_KEY = Some (Str b)"
    using d(2) w1 by simp
qed

lemma no_update_last_login_fst:
  "fst (no_update_last_login body w) =
     fst (body (w\<lparr>receivers := snd (let d = disconnect ''update_last_login'' None (receivers w)
        in if fst d then (False, snd d)
           else disconnect ''update_last_login'' (Some ''update_last_login'') (snd d))\<rparr>))"
  by (simp add: no_update_last_login_def Let_def split: prod.splits option.splits)

lemma no_update_last_login_login_succeeds:
  assumes "session (request w) = Some s" "s SESSION_KEY = None" "backend u = Some b"
    "pk u = Some i" "User_objects w i \<noteq> None"
  shows "fst (no_update_last_login (login cfg u) w) = None"
  unfolding no_update_last_login_fst
  using assms by (intro login_succeeds [where s = s and b = b and i = i]) simp_all

subsection \<open>The steps of \<open>login_as\<close>\<close>

lemma find_backend_None:
  "(find_backend cfg db u bs = None) = (\<forall>b \<in> set bs. \<not> suitable cfg db u b)"
  by (induction bs) (auto simp: suitable_def)

lemma find_backend_Some:
  "find_backend cfg db u bs = Some b \<Longrightarrow> b \<in> set bs \<and> suitable cfg db u b"
  by (induction bs) (auto simp: suitable_def split: if_splits)

lemma suitable_backend_Inl:
  "(suitable_backend cfg db u = Inl e) =
     (e = ImproperlyConfigured \<and> backend u = None \<and>
      find_backend cfg db u (AUTHENTICATION_BACKENDS cfg) = None)"
  by (auto simp: suitable_backend_def split: option.splits)

lemma suitable_backend_Inr:
  assumes "suitable_backend cfg db u = Inr u1"
  shows "\<exists>b. backend u1 = Some b" "u1\<lparr>backend := backend u\<rparr> = u"
    "backend u \<noteq> None \<Longrightarrow> u1 = u"
    "backend u = None \<Longrightarrow> find_backend cfg db u (AUTHENTICATION_BACKENDS cfg) = backend u1"
  using assms by (auto simp: suitable_backend_def split: option.splits if_splits)

lemma login_step_frame:
  assumes "log_the_user_in cfg u w = (e, u1, w1)"
  shows "LogEntry_objects w1 = LogEntry_objects w" "time w1 = time w"
    "messages (request w1) = messages (request w)" "u1\<lparr>last_login := last_login u\<rparr> = u"
  using assms login_frame [of cfg u w e u1 w1]
    no_update_last_login_login_frame [of cfg u w e u1 w1]
  by (auto simp: log_the_user_in_def split: if_splits)

lemma login_step_errors:
  assumes "log_the_user_in cfg u w = (Some e, u1, w1)" "backend u \<noteq> None"
  shows "e \<in> {AttributeError, ValidationError, ValueError, DatabaseError}"
  using assms login_errors [of cfg u w e u1 w1]
    no_update_last_login_login_errors [of cfg u w e u1 w1]
  by (auto simp: log_the_user_in_def split: if_splits)

lemma login_step_done:
  assumes "log_the_user_in cfg u w = (None, u1, w1)" "backend u = Some b"
  shows "user (request w1) = u1"
    "\<exists>s. session (request w1) = Some s \<and> s SESSION_KEY = Some (Str (str_pk (pk u))) \<and>
         s BACKEND_SESSION_KEY = Some (Str b)"
  using assms login_done [of cfg u w u1 w1 b]
    no_update_last_login_login_done [of cfg u w u1 w1 b]
  by (auto simp: log_the_user_in_def split: if_splits)

lemma login_step_succeeds:
  assumes "session (request w) = Some s" "s SESSION_KEY = None" "backend u = Some b"
    "pk u = Some i" "User_objects w i \<noteq> None"
  shows "fst (log_the_user_in cfg u w) = None"
  using login_succeeds [OF assms] no_update_last_login_login_succeeds [OF assms]
  by (simp add: log_the_user_in_def)

lemma set_session_flag_frame:
  assumes "set_session_flag cfg p u w = (e, u1, w1)"
  shows "u1 = u" "LogEntry_objects w1 = LogEntry_objects w" "receivers w1 = receivers w"
    "time w1 = time w" "user (request w1) = user (request w)"
    "User_objects w1 = User_objects w"
    "e \<in> {None, Some KeyError, Some MessageFailure, Some AttributeError}"
  using assms
  by (auto simp: set_session_flag_def add_message_def split: option.splits sum.splits if_splits)

lemma set_session_flag_done:
  assumes "set_session_flag cfg p u w = (None, u1, w1)"
  shows "\<exists>s. session (request w) = Some s \<and>
     session (request w1) = Some (s(USER_SESSION_FLAG cfg \<mapsto> sign cfg (str_pk p) (time w)))"
  using assms
  by (auto simp: set_session_flag_def add_message_def split: option.splits sum.splits if_splits)

lemma add_audit_log_entry_frame:
  "request (snd (add_audit_log_entry cfg p u w)) = request w"
  "receivers (snd (add_audit_log_entry cfg p u w)) = receivers w"
  "User_objects (snd (add_audit_log_entry cfg p u w)) = User_objects w"
  "time (snd (add_audit_log_entry cfg p u w)) = time w"
  by (simp_all add: add_audit_log_entry_def log_action_def split: option.splits)

lemma add_audit_log_entry_raised:
  assumes "add_audit_log_entry cfg p u w = (Some e, w1)"
  shows "e = IntegrityError" "w1 = w" "truthy_pk p"
  using assms
  by (auto simp: add_audit_log_entry_def log_action_def split: option.splits if_splits)

lemma add_audit_log_entry_anonymous:
  "\<not> truthy_pk p \<Longrightarrow> add_audit_log_entry cfg p u w = (None, w)"
  by (simp add: add_audit_log_entry_def)

text \<open>The four ways a call of \<open>login_as\<close> can go.\<close>

lemma login_as_cases:
  assumes la: "login_as cfg u w store = (e, u', w')"
  obtains
    (misconfigured) "backend u = None"
      "find_backend cfg (User_objects w) u (AUTHENTICATION_BACKENDS cfg) = None"
      "e = Some ImproperlyConfigured" "u' = u" "w' = w"
  | (audit_raised) u1 b where
      "suitable_backend cfg (User_objects w) u = Inr u1" "backend u1 = Some b"
      "fst (add_audit_log_entry cfg (pk (user (request w))) u1 w) = Some IntegrityError"
      "e = Some IntegrityError" "u' = u1" "w' = w"
  | (login_raised) u1 b err where
      "suitable_backend cfg (User_objects w) u = Inr u1" "backend u1 = Some b"
      "fst (add_audit_log_entry cfg (pk (user (request w))) u1 w) = None"
      "log_the_user_in cfg u1 (snd (add_audit_log_entry cfg (pk (user (request w))) u1 w)) =
         (Some err, u', w')"
      "e = Some err"
  | (logged_in) u1 b w2 where
      "suitable_backend cfg (User_objects w) u = Inr u1" "backend u1 = Some b"
      "fst (add_audit_log_entry cfg (pk (user (request w))) u1 w) = None"
      "log_the_user_in cfg u1 (snd (add_audit_log_entry cfg (pk (user (request w))) u1 w)) =
         (None, u', w2)"
      "if store then set_session_flag cfg (pk (user (request w))) u' w2 = (e, u', w')
       else e = None \<and> w' = w2"
proof (cases "suitable_backend cfg (User_objects w) u")
  case (Inl err)
  then have "err = ImproperlyConfigured" "backend u = None"
    "find_backend cfg (User_objects w) u (AUTHENTICATION_BACKENDS cfg) = None"
    by (simp_all add: suitable_backend_Inl)
  moreover have "e = Some err" "u' = u" "w' = w"
    using la Inl by (simp_all add: login_as_def)
  ultimately show ?thesis
    using misconfigured by simp
next
  case (Inr u1)
  then obtain b where b: "backend u1 = Some b"
    using suitable_backend_Inr(1) by blast
  obtain ea w1 where audit: "add_audit_log_entry cfg (pk (user (request w))) u1 w = (ea, w1)"
    by (cases "add_audit_log_entry cfg (pk (user (request w))) u1 w") auto
  show ?thesis
  proof (cases ea)
    case (Some err)
    then have "err = IntegrityError" "w1 = w"
      using add_audit_log_entry_raised [of cfg "pk (user (request w))" u1 w err w1] audit
      by simp_all
    moreover have "e = Some err" "u' = u1" "w' = w1"
      using la Inr audit Some by (simp_all add: login_as_def)
    ultimately show ?thesis
      using audit_raised [OF Inr b] audit Some by simp
  next
    case None
    obtain e2 u2 w2 where step: "log_the_user_in cfg u1 w1 = (e2, u2, w2)"
      by (cases "log_the_user_in cfg u1 w1") auto
    have unfolded: "login_as cfg u w store =
      (case e2 of
         Some e \<Rightarrow> (Some e, u2, w2)
       | None \<Rightarrow>
           if store then set_session_flag cfg (pk (user (request w))) u2 w2 else (None, u2, w2))"
      using b step Inr audit None by (simp add: login_as_def split: option.splits)
    have a: "fst (add_audit_log_entry cfg (pk (user (request w))) u1 w) = None"
      "snd (add_audit_log_entry cfg (pk (user (request w))) u1 w) = w1"
      using audit None by simp_all
    show ?thesis
    proof (cases e2)
      case (Some err)
      then have "e = Some err" "u' = u2" "w' = w2"
        using la unfolded by simp_all
      then show ?thesis
        using login_raised [OF Inr b a(1)] step Some a(2) by simp
    next
      case n: None
      show ?thesis
      proof (cases store)
        case True
        then have f: "set_session_flag cfg (pk (user (request w))) u2 w2 = (e, u', w')"
          using la unfolded n by simp
        then have "u' = u2"
          using set_session_flag_frame(1) by blast
        then show ?thesis
          using logged_in [OF Inr b a(1), of w2] step n f True a(2) by simp
      next
        case False
        then have "e = None" "u' = u2" "w' = w2"
          using la unfolded n by simp_all
        then show ?thesis
          using logged_in [OF Inr b a(1), of w2] step n False a(2) by simp
      qed
    qed
  qed
qed

lemma user_changes:
  fixes u u1 u2 :: User
  assumes "u1\<lparr>backend := backend u\<rparr> = u" "u2\<lparr>last_login := last_login u1\<rparr> = u1"
  shows "u2\<lparr>backend := backend u, last_login := last_login u\<rparr> = u"
    "backend u2 = backend u1" "pk u2 = pk u" "pk u1 = pk u" "to_str u1 = to_str u"
    "dict u2 = dict u"
proof -
  have a: "f (u2\<lparr>last_login := last_login u1\<rparr>) = f u1" for f :: "User \<Rightarrow> 'a"
    using assms(2) by (rule arg_cong)
  have b: "f (u1\<lparr>backend := backend u\<rparr>) = f u" for f :: "User \<Rightarrow> 'a"
    using assms(1) by (rule arg_cong)
  show "backend u2 = backend u1"
    using a [of backend] by simp
  show "pk u1 = pk u"
    using b [of pk] by simp
  then show "pk u2 = pk u"
    using a [of pk] by simp
  show "to_str u1 = to_str u"
    using b [of to_str] by simp
  have "dict u1 = dict u"
    using b [of dict] by simp
  then show "dict u2 = dict u"
    using a [of dict] by simp
  have "u2\<lparr>backend := backend u, last_login := last_login u\<rparr> =
      (u2\<lparr>last_login := last_login u1\<rparr>)\<lparr>backend := backend u, last_login := last_login u\<rparr>"
    by simp
  also have "\<dots> = (u1\<lparr>backend := backend u\<rparr>)\<lparr>last_login := last_login u\<rparr>"
    by (simp only: assms(2))
  also have "\<dots> = u"
    by (simp only: assms(1)) simp
  finally show "u2\<lparr>backend := backend u, last_login := last_login u\<rparr> = u" .
qed

text \<open>What a call of \<open>login_as\<close> that returned has done.\<close>

lemma login_as_returned:
  assumes "login_as cfg u w store = (None, u', w')"
  obtains u1 b w2 where
    "suitable_backend cfg (User_objects w) u = Inr u1" "backend u1 = Some b"
    "log_the_user_in cfg u1 (snd (add_audit_log_entry cfg (pk (user (request w))) u1 w)) = (None, u', w2)"
    "if store then set_session_flag cfg (pk (user (request w))) u' w2 = (None, u', w') else w' = w2"
    "fst (add_audit_log_entry cfg (pk (user (request w))) u1 w) = None"
  using assms by (cases rule: login_as_cases) (auto split: if_splits)

lemma login_as_flag:
  assumes "login_as cfg u w True = (None, u', w')"
  shows "\<exists>s. session (request w') = Some s \<and>
     s (USER_SESSION_FLAG cfg) = Some (sign cfg (str_pk (pk (user (request w)))) (time w))"
proof -
  from assms obtain u1 w2 where
    step: "log_the_user_in cfg u1 (snd (add_audit_log_entry cfg (pk (user (request w))) u1 w)) = (None, u', w2)"
    and flag: "set_session_flag cfg (pk (user (request w))) u' w2 = (None, u', w')"
    by (cases rule: login_as_returned) auto
  have "time w2 = time w"
    using login_step_frame(2) [OF step] by (simp add: add_audit_log_entry_frame)
  then show ?thesis
    using set_session_flag_done [OF flag] by auto
qed

lemma add_audit_log_entry_done:
  assumes "fst (add_audit_log_entry cfg p u w) = None"
  shows "LogEntry_objects (snd (add_audit_log_entry cfg p u w)) =
    (if truthy_pk p
     then LogEntry_objects w @
       [\<lparr>user_id = p, content_type_id = user_content_type cfg, object_id = str_pk (pk u),
         object_repr = take 200 (to_str u),
         change_message = ''User '' @ to_str (user (request w)) @ '' logged in as '' @ to_str u @ ''.'',
         action_flag = CHANGE\<rparr>]
     else LogEntry_objects w)"
  using assms
  by (auto simp: add_audit_log_entry_def log_action_def split: option.splits if_splits)

lemma login_as_log:
  assumes "login_as cfg u w store = (None, u', w')"
  shows "\<exists>u1. suitable_backend cfg (User_objects w) u = Inr u1 \<and>
    fst (add_audit_log_entry cfg (pk (user (request w))) u1 w) = None \<and>
    LogEntry_objects w' =
      LogEntry_objects (snd (add_audit_log_entry cfg (pk (user (request w))) u1 w))"
proof -
  from assms obtain u1 b w2 where
    sb: "suitable_backend cfg (User_objects w) u = Inr u1" and "backend u1 = Some b"
    and step: "log_the_user_in cfg u1 (snd (add_audit_log_entry cfg (pk (user (request w))) u1 w)) = (None, u', w2)"
    and rest: "if store then set_session_flag cfg (pk (user (request w))) u' w2 = (None, u', w') else w' = w2"
    and audit: "fst (add_audit_log_entry cfg (pk (user (request w))) u1 w) = None"
    by (rule login_as_returned)
  have "LogEntry_objects w' = LogEntry_objects w2"
    using rest set_session_flag_frame(2) by (auto split: if_splits)
  then show ?thesis
    using login_step_frame(1) [OF step] sb audit by simp
qed




subsection \<open>Connecting and disconnecting receivers\<close>

lemma remove_key_fst: "fst (remove_key k rs) = (k \<in> fst ` set rs)"
  by (induction rs) auto

lemma remove_key_absent: "k \<notin> fst ` set rs \<Longrightarrow> snd (remove_key k rs) = rs"
  by (induction rs) auto

lemma remove_key_set:
  "distinct (map fst rs) \<Longrightarrow> set (snd (remove_key k rs)) = {r \<in> set rs. fst r \<noteq> k}"
  by (induction rs) (auto simp: rev_image_eqI)

lemma remove_key_distinct:
  "distinct (map fst rs) \<Longrightarrow> distinct (map fst (snd (remove_key k rs)))"
proof (induction rs)
  case Nil
  then show ?case by simp
next
  case (Cons r rs)
  then have "fst r \<notin> fst ` set (snd (remove_key k rs))"
    by (auto simp: remove_key_set)
  then show ?case
    using Cons by simp
qed

text \<open>The receivers after the context manager, when its body went through.\<close>

lemma reconnected_props:
  assumes "distinct (map fst rs)"
    and "rs' =
     (if Receiver_id ''update_last_login'' \<in> fst ` set rs
      then snd (remove_key (Receiver_id ''update_last_login'') rs) @
             [(Receiver_id ''update_last_login'', ''update_last_login'')]
      else if Dispatch_uid ''update_last_login'' \<in> fst ` set rs
      then snd (remove_key (Dispatch_uid ''update_last_login'') rs) @
             [(Dispatch_uid ''update_last_login'', ''update_last_login'')]
      else rs)"
  shows "fst ` set rs' = fst ` set rs"
    "(k, ''update_last_login'') \<in> set rs \<Longrightarrow> (k, ''update_last_login'') \<in> set rs'"
    "distinct (map fst rs')"
    "(\<forall>r. (Receiver_id ''update_last_login'', r) \<in> set rs \<or>
          (Dispatch_uid ''update_last_login'', r) \<in> set rs \<longrightarrow> r = ''update_last_login'') \<Longrightarrow>
       set rs' = set rs"
proof -
  show "fst ` set rs' = fst ` set rs"
    using assms by (auto simp: remove_key_set rev_image_eqI)
  show "(k, ''update_last_login'') \<in> set rs'"
    if "(k, ''update_last_login'') \<in> set rs"
    using assms that by (auto simp: remove_key_set)
  show "distinct (map fst rs')"
    using assms by (auto simp: remove_key_set remove_key_distinct)
  show "set rs' = set rs"
    if "\<forall>r. (Receiver_id ''update_last_login'', r) \<in> set rs \<or>
          (Dispatch_uid ''update_last_login'', r) \<in> set rs \<longrightarrow> r = ''update_last_login''"
    using assms that by (auto simp: remove_key_set)
qed

lemma no_update_last_login_receivers:
  assumes run: "no_update_last_login body w = (None, u1, w1)"
    and frame: "\<And>w0 e u2 w2. body w0 = (e, u2, w2) \<Longrightarrow> receivers w2 = receivers w0"
    and dist: "distinct (map fst (receivers w))"
  shows "receivers w1 =
     (if Receiver_id ''update_last_login'' \<in> fst ` set (receivers w)
      then snd (remove_key (Receiver_id ''update_last_login'') (receivers w)) @
             [(Receiver_id ''update_last_login'', ''update_last_login'')]
      else if Dispatch_uid ''update_last_login'' \<in> fst ` set (receivers w)
      then snd (remove_key (Dispatch_uid ''update_last_login'') (receivers w)) @
             [(Dispatch_uid ''update_last_login'', ''update_last_login'')]
      else receivers w)"
proof -
  let ?k1 = "Receiver_id ''update_last_login''"
  let ?k2 = "Dispatch_uid ''update_last_login''"
  define d where "d = disconnect ''update_last_login'' None (receivers w)"
  define d_id where "d_id = (if fst d then (False, snd d)
     else disconnect ''update_last_login'' (Some ''update_last_login'') (snd d))"
  obtain e2 u2 w2 where b: "body (w\<lparr>receivers := snd d_id\<rparr>) = (e2, u2, w2)"
    by (cases "body (w\<lparr>receivers := snd d_id\<rparr>)") auto
  have *: "no_update_last_login body w =
    (case (e2, u2, w2) of
       (Some e, u1, w1) \<Rightarrow> (Some e, u1, w1)
     | (None, u1, w1) \<Rightarrow>
         (None, u1,
          if fst d then w1\<lparr>receivers := connect ''update_last_login'' None (receivers w1)\<rparr>
          else if fst d_id
          then w1\<lparr>receivers := connect ''update_last_login'' (Some ''update_last_login'') (receivers w1)\<rparr>
          else w1))"
    unfolding no_update_last_login_def Let_def d_def [symmetric] d_id_def [symmetric] b ..
  have r2: "receivers w2 = snd d_id"
    using frame [OF b] by simp
  have e2: "e2 = None"
    using run * by (cases e2) auto
  have w1: "w1 = (if fst d then w2\<lparr>receivers := connect ''update_last_login'' None (receivers w2)\<rparr>
          else if fst d_id
          then w2\<lparr>receivers := connect ''update_last_login'' (Some ''update_last_login'') (receivers w2)\<rparr>
          else w2)"
    using run * e2 by simp
  have d1: "fst d = (?k1 \<in> fst ` set (receivers w))" "snd d = snd (remove_key ?k1 (receivers w))"
    by (simp_all add: d_def disconnect_def make_key_def remove_key_fst)
  show ?thesis
  proof (cases "?k1 \<in> fst ` set (receivers w)")
    case True
    then have "snd d_id = snd (remove_key ?k1 (receivers w))"
      using d1 by (simp add: d_id_def)
    moreover have "?k1 \<notin> fst ` set (snd (remove_key ?k1 (receivers w)))"
      using dist by (auto simp: remove_key_set)
    ultimately show ?thesis
      using True w1 r2 d1
      by (simp add: connect_def make_key_def del: set_map)
         (simp add: image_iff)
  next
    case False
    then have sd: "snd d = receivers w" "\<not> fst d"
      using d1 by (simp_all add: remove_key_absent)
    then have did: "fst d_id = (?k2 \<in> fst ` set (receivers w))"
      "snd d_id = snd (remove_key ?k2 (receivers w))"
      by (simp_all add: d_id_def disconnect_def make_key_def remove_key_fst)
    show ?thesis
    proof (cases "?k2 \<in> fst ` set (receivers w)")
      case True
      have "?k2 \<notin> fst ` set (snd (remove_key ?k2 (receivers w)))"
        using dist by (auto simp: remove_key_set)
      then show ?thesis
        using True False w1 r2 sd did
        by (simp add: connect_def make_key_def del: set_map)
           (simp add: image_iff)
    next
      case k2: False
      then show ?thesis
        using False w1 r2 sd did by (simp add: remove_key_absent)
    qed
  qed
qed

lemma log_the_user_in_receivers:
  assumes "log_the_user_in cfg u w = (None, u1, w1)" "\<not> UPDATE_LAST_LOGIN cfg"
    "distinct (map fst (receivers w))"
  shows "receivers w1 =
     (if Receiver_id ''update_last_login'' \<in> fst ` set (receivers w)
      then snd (remove_key (Receiver_id ''update_last_login'') (receivers w)) @
             [(Receiver_id ''update_last_login'', ''update_last_login'')]
      else if Dispatch_uid ''update_last_login'' \<in> fst ` set (receivers w)
      then snd (remove_key (Dispatch_uid ''update_last_login'') (receivers w)) @
             [(Dispatch_uid ''update_last_login'', ''update_last_login'')]
      else receivers w)"
proof -
  have run: "no_update_last_login (login cfg u) w = (None, u1, w1)"
    using assms(1,2) by (simp add: log_the_user_in_def)
  show ?thesis
    using run login_frame(1) assms(3) by (rule no_update_last_login_receivers)
qed

subsection \<open>Switching back\<close>

lemma login_as_returned_request:
  assumes "login_as cfg u w store = (None, u', w')"
  shows "pk (user (request w')) = pk u" "\<exists>s. session (request w') = Some s"
proof -
  from assms obtain u1 b w2 where
    sb: "suitable_backend cfg (User_objects w) u = Inr u1" and b: "backend u1 = Some b"
    and step: "log_the_user_in cfg u1 (snd (add_audit_log_entry cfg (pk (user (request w))) u1 w)) = (None, u', w2)"
    and rest: "if store then set_session_flag cfg (pk (user (request w))) u' w2 = (None, u', w') else w' = w2"
    by (rule login_as_returned)
  have pk: "pk u' = pk u"
    using user_changes(3) [OF suitable_backend_Inr(2) [OF sb] login_step_frame(4) [OF step]] .
  note dn = login_step_done [OF step b]
  show "pk (user (request w')) = pk u"
  proof (cases store)
    case True
    then show ?thesis
      using rest set_session_flag_frame(5) [of cfg "pk (user (request w))" u' w2 None u' w'] dn(1) pk
      by simp
  next
    case False
    then show ?thesis
      using rest dn(1) pk by simp
  qed
  show "\<exists>s. session (request w') = Some s"
  proof (cases store)
    case True
    then show ?thesis
      using rest set_session_flag_done [of cfg "pk (user (request w))" u' w2 u' w'] by auto
  next
    case False
    then show ?thesis
      using rest dn(2) by auto
  qed
qed

lemma add_message_ok:
  "messages r \<noteq> None \<Longrightarrow>
     \<exists>r'. add_message r lvl m tags = Inr r' \<and> session r' = session r \<and> user r' = user r"
  by (auto simp: add_message_def)

lemma login_as_succeeds:
  assumes "session (request w) = Some s" "s SESSION_KEY = None" "pk u = Some i"
    "User_objects w i \<noteq> None" "backend u = None"
    "\<exists>b \<in> set (AUTHENTICATION_BACKENDS cfg). suitable cfg (User_objects w) u b"
    "\<not> truthy_pk (pk (user (request w)))"
  shows "fst (login_as cfg u w False) = None"
proof -
  from assms(6) obtain b where
    fb: "find_backend cfg (User_objects w) u (AUTHENTICATION_BACKENDS cfg) = Some b"
    using find_backend_None [of cfg "User_objects w" u "AUTHENTICATION_BACKENDS cfg"] by auto
  then have sb: "suitable_backend cfg (User_objects w) u = Inr (u\<lparr>backend := Some b\<rparr>)"
    using assms(5) by (simp add: suitable_backend_def)
  let ?u1 = "u\<lparr>backend := Some b\<rparr>"
  let ?w1 = "snd (add_audit_log_entry cfg (pk (user (request w))) ?u1 w)"
  have "fst (log_the_user_in cfg ?u1 ?w1) = None"
    using assms(1-4)
    by (intro login_step_succeeds [where s = s and b = b and i = i])
       (simp_all add: add_audit_log_entry_frame)
  then obtain u2 w2 where "log_the_user_in cfg ?u1 ?w1 = (None, u2, w2)"
    by (cases "log_the_user_in cfg ?u1 ?w1") auto
  then show ?thesis
    using sb assms(7) by (simp add: login_as_def Let_def add_audit_log_entry_anonymous)
qed

lemma revert_login_result:
  assumes "revert_login cfg (str_pk p0) w = (None, w')"
  shows "p0 \<noteq> None \<and> pk (user (request w')) = p0 \<and> \<not> is_impersonated_session cfg (request w')"
proof -
  obtain u where og: "objects_get (User_objects w) (str_pk p0) = Inr u"
    using assms by (cases "objects_get (User_objects w) (str_pk p0)") (auto simp: revert_login_def)
  then obtain i where i: "int_of_str (str_pk p0) = Some i" "pk u = Some i"
    by (auto simp: objects_get_def split: option.splits)
  have p0: "p0 = Some i"
  proof (cases p0)
    case None
    then show ?thesis
      using i(1) by (simp add: int_of_str_None)
  next
    case (Some j)
    then show ?thesis
      using i(1) by (simp add: int_of_str_str_pk)
  qed
  obtain name where name: "dict u (USERNAME_FIELD cfg) = Some name"
    using assms og by (cases "dict u (USERNAME_FIELD cfg)") (auto simp: revert_login_def)
  obtain r where r: "add_message (request w) INFO (MESSAGE_LOGIN_REVERT cfg name)
      (MESSAGE_EXTRA_TAGS cfg) = Inr r"
    using assms og name
    by (cases "add_message (request w) INFO (MESSAGE_LOGIN_REVERT cfg name) (MESSAGE_EXTRA_TAGS cfg)")
       (auto simp: revert_login_def)
  obtain e2 u2 w2 where la: "login_as cfg u (w\<lparr>request := r\<rparr>) False = (e2, u2, w2)"
    by (cases "login_as cfg u (w\<lparr>request := r\<rparr>) False") auto
  have e2: "e2 = None"
    using assms og name r la by (cases e2) (auto simp: revert_login_def)
  obtain s2 where s2: "session (request w2) = Some s2"
    using login_as_returned_request(2) [OF la [unfolded e2]] by blast
  have w': "w' = w2\<lparr>request := (request w2)\<lparr>session := Some (s2(USER_SESSION_FLAG cfg := None))\<rparr>\<rparr>"
    using assms og name r la e2 s2 by (simp add: revert_login_def)
  have "pk (user (request w2)) = Some i"
    using login_as_returned_request(1) [OF la [unfolded e2]] i(2) by simp
  then show ?thesis
    using p0 w' by (simp add: is_impersonated_session_def)
qed

lemma revert_login_succeeds:
  assumes "session (request w) = Some Map.empty" "User_objects w i = Some row"
    "dict row (USERNAME_FIELD cfg) = Some name" "messages (request w) \<noteq> None"
    "\<exists>b \<in> set (AUTHENTICATION_BACKENDS cfg).
       suitable cfg (User_objects w) (row\<lparr>pk := Some i, backend := None\<rparr>) b"
    "user (request w) = AnonymousUser"
  shows "fst (revert_login cfg (str_pk (Some i)) w) = None"
proof -
  let ?u = "row\<lparr>pk := Some i, backend := None\<rparr>"
  have og: "objects_get (User_objects w) (str_pk (Some i)) = Inr ?u"
    using assms(2) by (simp add: objects_get_def int_of_str_str_pk)
  obtain r where r: "add_message (request w) INFO (MESSAGE_LOGIN_REVERT cfg name)
      (MESSAGE_EXTRA_TAGS cfg) = Inr r" and rs: "session r = Some Map.empty"
      and ru: "\<not> truthy_pk (pk (user r))"
    using assms(1,4,6) add_message_ok [of "request w" INFO "MESSAGE_LOGIN_REVERT cfg name"
        "MESSAGE_EXTRA_TAGS cfg"] by (auto simp: AnonymousUser_def truthy_pk_def)
  have "fst (login_as cfg ?u (w\<lparr>request := r\<rparr>) False) = None"
    using rs assms(2,5,6) ru
    by (intro login_as_succeeds [where s = Map.empty and i = i]) simp_all
  then obtain u2 w2 where la: "login_as cfg ?u (w\<lparr>request := r\<rparr>) False = (None, u2, w2)"
    by (cases "login_as cfg ?u (w\<lparr>request := r\<rparr>) False") auto
  obtain s2 where s2: "session (request w2) = Some s2"
    using login_as_returned_request(2) [OF la] by blast
  show ?thesis
    using og assms(3) r la s2 by (simp add: revert_login_def)
qed

lemma login_as_errors:
  assumes "login_as cfg u w store = (Some e, u', w')"
  shows "e \<in> {ImproperlyConfigured, IntegrityError, AttributeError, ValidationError, ValueError,
    DatabaseError, KeyError, MessageFailure}"
  using assms
proof (cases rule: login_as_cases)
  case misconfigured
  then show ?thesis by simp
next
  case (audit_raised u1 b)
  then show ?thesis by simp
next
  case (login_raised u1 b err)
  then show ?thesis
    using login_step_errors [OF login_raised(4)] by auto
next
  case (logged_in u1 b w2)
  then show ?thesis
    using set_session_flag_frame(7) [of cfg "pk (user (request w))" u' w2 "Some e" u' w']
    by (auto split: if_splits)
qed

lemma revert_login_errors:
  assumes "revert_login cfg v w = (Some e, w')"
  shows "e \<noteq> SignatureExpired"
proof (cases "objects_get (User_objects w) v")
  case (Inl err)
  then have "err \<in> {ValueError, DoesNotExist}"
    by (auto simp: objects_get_def split: option.splits)
  then show ?thesis
    using assms Inl by (auto simp: revert_login_def)
next
  case (Inr u)
  show ?thesis
  proof (cases "dict u (USERNAME_FIELD cfg)")
    case None
    then show ?thesis
      using assms Inr by (auto simp: revert_login_def)
  next
    case (Some name)
    show ?thesis
    proof (cases "add_message (request w) INFO (MESSAGE_LOGIN_REVERT cfg name) (MESSAGE_EXTRA_TAGS cfg)")
      case (Inl err)
      then have "err = MessageFailure"
        by (auto simp: add_message_def split: option.splits if_splits)
      then show ?thesis
        using assms Inr Some Inl by (auto simp: revert_login_def)
    next
      case r: (Inr r)
      obtain e2 u2 w2 where la: "login_as cfg u (w\<lparr>request := r\<rparr>) False = (e2, u2, w2)"
        by (cases "login_as cfg u (w\<lparr>request := r\<rparr>) False") auto
      show ?thesis
      proof (cases e2)
        case None
        then obtain s2 where "session (request w2) = Some s2"
          using login_as_returned_request(2) la by blast
        then show ?thesis
          using assms Inr Some r la None by (auto simp: revert_login_def)
      next
        case err: (Some err)
        then have "e = err"
          using assms Inr Some r la by (auto simp: revert_login_def)
        then show ?thesis
          using login_as_errors [OF la [unfolded err]] by auto
      qed
    qed
  qed
qed

lemma restore_with_valid_flag:
  assumes "session (request w) = Some s"
    "s (USER_SESSION_FLAG cfg) = Some (sign cfg (str_pk p0) t0)"
    "time w - t0 \<le> USER_SESSION_DAYS_TIMESTAMP cfg * 86400"
  shows "restore_original_login cfg w =
    revert_login cfg (str_pk p0)
      (w\<lparr>request := (request w)\<lparr>session := Some Map.empty, user := AnonymousUser\<rparr>\<rparr>)"
proof -
  let ?w1 = "w\<lparr>request := (request w)\<lparr>session := Some Map.empty, user := AnonymousUser\<rparr>\<rparr>"
  obtain e w' where rv: "revert_login cfg (str_pk p0) ?w1 = (e, w')"
    by (cases "revert_login cfg (str_pk p0) ?w1") auto
  have "e \<noteq> Some SignatureExpired"
    using rv revert_login_errors by blast
  then have "(case (e, w') of
       (Some e, w2) \<Rightarrow> (if e = SignatureExpired then (None, w2) else (Some e, w2))
     | (None, w2) \<Rightarrow> (None, w2)) = (e, w')"
    by (cases e) auto
  then show ?thesis
    using assms rv by (simp add: restore_original_login_def logout_def sign_def unsign_def)
qed

lemma login_session_keys:
  assumes "login cfg u w = (e, u1, w1)" "session (request w) = Some s"
  shows "\<exists>s1. session (request w1) = Some s1 \<and>
    dom s1 \<subseteq> dom s \<union> {SESSION_KEY, BACKEND_SESSION_KEY, HASH_SESSION_KEY}"
proof (cases "session_belongs_to_other s u")
  case (Inl err)
  then show ?thesis
    using assms by (auto simp: login_def)
next
  case (Inr other)
  show ?thesis
  proof (cases "login_backend cfg u")
    case (Inl err)
    then show ?thesis
      using assms Inr by (auto simp: login_def Let_def)
  next
    case b: (Inr b)
    define s2 where "s2 = (if other then Map.empty else s)
      (SESSION_KEY \<mapsto> Str (str_pk (pk u)), BACKEND_SESSION_KEY \<mapsto> Str b,
       HASH_SESSION_KEY \<mapsto> Str (session_auth_hash u))"
    define w2 where "w2 = w\<lparr>request := (request w)\<lparr>session := Some s2, user := u\<rparr>\<rparr>"
    obtain e3 u3 w3 where snd: "send_user_logged_in (receivers w2) u w2 = (e3, u3, w3)"
      by (cases "send_user_logged_in (receivers w2) u w2") auto
    have res: "w1 = w3\<lparr>request := (request w3)\<lparr>user := u3\<rparr>\<rparr>"
      using assms Inr b snd by (auto simp: login_def Let_def s2_def w2_def)
    have "request w3 = request w2"
      using send_user_logged_in_frame [OF snd] by simp
    then have "session (request w1) = Some s2"
      using res by (simp add: w2_def)
    moreover have "dom s2 \<subseteq> dom s \<union> {SESSION_KEY, BACKEND_SESSION_KEY, HASH_SESSION_KEY}"
      by (auto simp: s2_def split: if_splits)
    ultimately show ?thesis
      by simp
  qed
qed

lemma log_the_user_in_session_keys:
  assumes "log_the_user_in cfg u w = (e, u1, w1)" "session (request w) = Some s"
  shows "\<exists>s1. session (request w1) = Some s1 \<and>
    dom s1 \<subseteq> dom s \<union> {SESSION_KEY, BACKEND_SESSION_KEY, HASH_SESSION_KEY}"
proof (cases "UPDATE_LAST_LOGIN cfg")
  case True
  then show ?thesis
    using assms login_session_keys by (simp add: log_the_user_in_def)
next
  case False
  then have "no_update_last_login (login cfg u) w = (e, u1, w1)"
    using assms(1) by (simp add: log_the_user_in_def)
  then obtain rs2 rs3 w2 where b: "login cfg u (w\<lparr>receivers := rs2\<rparr>) = (e, u1, w2)"
    and w1: "w1 = w2\<lparr>receivers := rs3\<rparr>"
    using no_update_last_login_body by blast
  have "session (request (w\<lparr>receivers := rs2\<rparr>)) = Some s"
    using assms(2) by simp
  from login_session_keys [OF b this] show ?thesis
    using w1 by simp
qed

lemma login_as_session_keys:
  assumes "login_as cfg u w False = (e, u', w')" "session (request w) = Some s"
  shows "\<exists>s1. session (request w') = Some s1 \<and>
    dom s1 \<subseteq> dom s \<union> {SESSION_KEY, BACKEND_SESSION_KEY, HASH_SESSION_KEY}"
  using assms(1)
proof (cases rule: login_as_cases)
  case misconfigured
  then show ?thesis
    using assms(2) by auto
next
  case (audit_raised u1 b)
  then show ?thesis
    using assms(2) by auto
next
  case (login_raised u1 b err)
  have "session (request (snd (add_audit_log_entry cfg (pk (user (request w))) u1 w))) = Some s"
    using assms(2) by (simp add: add_audit_log_entry_frame)
  from log_the_user_in_session_keys [OF login_raised(4) this] show ?thesis .
next
  case (logged_in u1 b w2)
  have "session (request (snd (add_audit_log_entry cfg (pk (user (request w))) u1 w))) = Some s"
    using assms(2) by (simp add: add_audit_log_entry_frame)
  from log_the_user_in_session_keys [OF logged_in(4) this] show ?thesis
    using logged_in(5) by simp
qed

lemma revert_login_session_keys:
  assumes "revert_login cfg v w = (e, w')" "session (request w) = Some Map.empty"
  shows "\<exists>s1. session (request w') = Some s1 \<and>
    dom s1 \<subseteq> {SESSION_KEY, BACKEND_SESSION_KEY, HASH_SESSION_KEY}"
proof (cases "objects_get (User_objects w) v")
  case (Inl err)
  then show ?thesis
    using assms by (simp add: revert_login_def)
next
  case (Inr u)
  show ?thesis
  proof (cases "dict u (USERNAME_FIELD cfg)")
    case None
    then show ?thesis
      using assms Inr by (simp add: revert_login_def)
  next
    case (Some name)
    show ?thesis
    proof (cases "add_message (request w) INFO (MESSAGE_LOGIN_REVERT cfg name) (MESSAGE_EXTRA_TAGS cfg)")
      case (Inl err)
      then show ?thesis
        using assms Inr Some by (simp add: revert_login_def)
    next
      case r: (Inr r)
      then have rs: "session (request (w\<lparr>request := r\<rparr>)) = Some Map.empty"
        using assms(2) by (auto simp: add_message_def split: option.splits if_splits)
      obtain e2 u2 w2 where la: "login_as cfg u (w\<lparr>request := r\<rparr>) False = (e2, u2, w2)"
        by (cases "login_as cfg u (w\<lparr>request := r\<rparr>) False") auto
      from login_as_session_keys [OF la rs] obtain s2 where
        s2: "session (request w2) = Some s2"
          "dom s2 \<subseteq> {SESSION_KEY, BACKEND_SESSION_KEY, HASH_SESSION_KEY}"
        by auto
      show ?thesis
      proof (cases e2)
        case None
        then have "w' = w2\<lparr>request := (request w2)\<lparr>session := Some (s2(USER_SESSION_FLAG cfg := None))\<rparr>\<rparr>"
          using assms Inr Some r la s2 by (simp add: revert_login_def)
        then show ?thesis
          using s2(2) by auto
      next
        case (Some err)
        then have "w' = w2"
          using assms Inr \<open>dict u (USERNAME_FIELD cfg) = Some name\<close> r la
          by (simp add: revert_login_def)
        then show ?thesis
          using s2 by simp
      qed
    qed
  qed
qed

text \<open>The session a login leaves.\<close>

lemma login_session:
  assumes "login cfg u w = (None, u1, w1)" "session (request w) = Some s"
    "session_belongs_to_other s u = Inr other" "backend u = Some b"
  shows "session (request w1) =
    Some ((if other then Map.empty else s)
            (SESSION_KEY \<mapsto> Str (str_pk (pk u)), BACKEND_SESSION_KEY \<mapsto> Str b,
             HASH_SESSION_KEY \<mapsto> Str (session_auth_hash u)))"
proof -
  define s2 where "s2 = (if other then Map.empty else s)
    (SESSION_KEY \<mapsto> Str (str_pk (pk u)), BACKEND_SESSION_KEY \<mapsto> Str b,
     HASH_SESSION_KEY \<mapsto> Str (session_auth_hash u))"
  define w2 where "w2 = w\<lparr>request := (request w)\<lparr>session := Some s2, user := u\<rparr>\<rparr>"
  obtain e3 u3 w3 where snd: "send_user_logged_in (receivers w2) u w2 = (e3, u3, w3)"
    by (cases "send_user_logged_in (receivers w2) u w2") auto
  have res: "w1 = w3\<lparr>request := (request w3)\<lparr>user := u3\<rparr>\<rparr>"
    using assms snd by (auto simp: login_def Let_def s2_def w2_def login_backend_present)
  have "request w3 = request w2"
    using send_user_logged_in_frame [OF snd] by simp
  then have "session (request w1) = Some s2"
    using res by (simp add: w2_def)
  then show ?thesis
    by (simp add: s2_def)
qed

lemma log_the_user_in_session:
  assumes "log_the_user_in cfg u w = (None, u1, w1)" "session (request w) = Some s"
    "session_belongs_to_other s u = Inr other" "backend u = Some b"
  shows "session (request w1) =
    Some ((if other then Map.empty else s)
            (SESSION_KEY \<mapsto> Str (str_pk (pk u)), BACKEND_SESSION_KEY \<mapsto> Str b,
             HASH_SESSION_KEY \<mapsto> Str (session_auth_hash u)))"
proof (cases "UPDATE_LAST_LOGIN cfg")
  case True
  then show ?thesis
    using assms login_session by (simp add: log_the_user_in_def)
next
  case False
  then have "no_update_last_login (login cfg u) w = (None, u1, w1)"
    using assms(1) by (simp add: log_the_user_in_def)
  then obtain rs2 rs3 w2 where b: "login cfg u (w\<lparr>receivers := rs2\<rparr>) = (None, u1, w2)"
    and w1: "w1 = w2\<lparr>receivers := rs3\<rparr>"
    using no_update_last_login_body by blast
  have "session (request (w\<lparr>receivers := rs2\<rparr>)) = Some s"
    using assms(2) by simp
  from login_session [OF b this assms(3,4)] show ?thesis
    using w1 by simp
qed

text \<open>A login as a user loaded from the table, on a request that was just logged out.\<close>

lemma login_as_after_logout:
  assumes la: "login_as cfg u w False = (None, u', w')"
    and sess: "session (request w) = Some Map.empty"
    and anon: "\<not> truthy_pk (pk (user (request w)))"
    and nb: "backend u = None"
  shows "\<exists>b \<in> set (AUTHENTICATION_BACKENDS cfg).
    suitable cfg (User_objects w) u b \<and>
    user (request w') = u' \<and> backend u' = Some b \<and>
    u'\<lparr>backend := None, last_login := last_login u\<rparr> = u \<and>
    session (request w') =
      Some [SESSION_KEY \<mapsto> Str (str_pk (pk u)), BACKEND_SESSION_KEY \<mapsto> Str b,
            HASH_SESSION_KEY \<mapsto> Str (session_auth_hash u)] \<and>
    messages (request w') = messages (request w) \<and>
    LogEntry_objects w' = LogEntry_objects w"
proof -
  from la obtain u1 b w2 where
    sb: "suitable_backend cfg (User_objects w) u = Inr u1" and b: "backend u1 = Some b"
    and step: "log_the_user_in cfg u1 (snd (add_audit_log_entry cfg (pk (user (request w))) u1 w)) = (None, u', w2)"
    and rest: "if False then set_session_flag cfg (pk (user (request w))) u' w2 = (None, u', w') else w' = w2"
    by (rule login_as_returned)
  have w': "w' = w2"
    using rest by simp
  have audit: "snd (add_audit_log_entry cfg (pk (user (request w))) u1 w) = w"
    using anon by (simp add: add_audit_log_entry_anonymous)
  have step': "log_the_user_in cfg u1 w = (None, u', w2)"
    using step audit by simp
  have fb: "find_backend cfg (User_objects w) u (AUTHENTICATION_BACKENDS cfg) = Some b"
    using suitable_backend_Inr(4) [OF sb nb] b by simp
  note found = find_backend_Some [OF fb]
  have u1: "u1 = u\<lparr>backend := Some b\<rparr>"
    using sb nb fb by (simp add: suitable_backend_def)
  have key: "session_belongs_to_other Map.empty u1 = Inr False"
    by (simp add: session_belongs_to_other_fresh)
  have s': "session (request w2) =
      Some [SESSION_KEY \<mapsto> Str (str_pk (pk u1)), BACKEND_SESSION_KEY \<mapsto> Str b,
            HASH_SESSION_KEY \<mapsto> Str (session_auth_hash u1)]"
    using log_the_user_in_session [OF step' sess key b] by simp
  note fr = login_step_frame [OF step']
  note dn = login_step_done [OF step' b]
  have eq: "u'\<lparr>backend := backend u, last_login := last_login u\<rparr> = u" "backend u' = backend u1"
    using user_changes(1,2) [OF suitable_backend_Inr(2) [OF sb] fr(4)] by simp_all
  show ?thesis
    using found dn(1) eq b nb s' fr(1,3) w' u1 by auto
qed

lemma revert_login_restored:
  assumes rv: "revert_login cfg (str_pk p0) w = (None, w')"
    and sess: "session (request w) = Some Map.empty"
    and anon: "user (request w) = AnonymousUser"
  shows "\<exists>i row name. p0 = Some i \<and> User_objects w i = Some row \<and>
    dict row (USERNAME_FIELD cfg) = Some name \<and>
    (\<exists>b \<in> set (AUTHENTICATION_BACKENDS cfg).
       suitable cfg (User_objects w) (row\<lparr>pk := Some i, backend := None\<rparr>) b \<and>
       backend (user (request w')) = Some b \<and>
       (user (request w'))\<lparr>backend := None, last_login := last_login row\<rparr> =
         row\<lparr>pk := Some i, backend := None\<rparr> \<and>
       session (request w') =
         Some ([SESSION_KEY \<mapsto> Str (str_pk p0), BACKEND_SESSION_KEY \<mapsto> Str b,
                HASH_SESSION_KEY \<mapsto> Str (session_auth_hash row)]
               (USER_SESSION_FLAG cfg := None))) \<and>
    messages (request w') =
      map_option (\<lambda>ms. if MESSAGE_LOGIN_REVERT cfg name = [] then ms
                        else ms @ [\<lparr>level = INFO, message = MESSAGE_LOGIN_REVERT cfg name,
                                    extra_tags = MESSAGE_EXTRA_TAGS cfg\<rparr>])
        (messages (request w)) \<and>
    LogEntry_objects w' = LogEntry_objects w"
proof -
  obtain u where og: "objects_get (User_objects w) (str_pk p0) = Inr u"
    using rv by (cases "objects_get (User_objects w) (str_pk p0)") (auto simp: revert_login_def)
  then obtain i row where i: "int_of_str (str_pk p0) = Some i" and row: "User_objects w i = Some row"
    and u: "u = row\<lparr>pk := Some i, backend := None\<rparr>"
    by (auto simp: objects_get_def split: option.splits)
  have p0: "p0 = Some i"
  proof (cases p0)
    case None
    then show ?thesis
      using i by (simp add: int_of_str_None)
  next
    case (Some j)
    then show ?thesis
      using i by (simp add: int_of_str_str_pk)
  qed
  obtain name where name: "dict u (USERNAME_FIELD cfg) = Some name"
    using rv og by (cases "dict u (USERNAME_FIELD cfg)") (auto simp: revert_login_def)
  obtain r where r: "add_message (request w) INFO (MESSAGE_LOGIN_REVERT cfg name)
      (MESSAGE_EXTRA_TAGS cfg) = Inr r"
    using rv og name
    by (cases "add_message (request w) INFO (MESSAGE_LOGIN_REVERT cfg name) (MESSAGE_EXTRA_TAGS cfg)")
       (auto simp: revert_login_def)
  have r_frame: "session r = Some Map.empty" "user r = AnonymousUser"
    "messages r =
      map_option (\<lambda>ms. if MESSAGE_LOGIN_REVERT cfg name = [] then ms
                        else ms @ [\<lparr>level = INFO, message = MESSAGE_LOGIN_REVERT cfg name,
                                    extra_tags = MESSAGE_EXTRA_TAGS cfg\<rparr>])
        (messages (request w))"
    using r sess anon by (auto simp: add_message_def split: option.splits if_splits)
  let ?w0 = "w\<lparr>request := r\<rparr>"
  obtain e2 u2 w2 where la: "login_as cfg u ?w0 False = (e2, u2, w2)"
    by (cases "login_as cfg u ?w0 False") auto
  have e2: "e2 = None"
    using rv og name r la by (cases e2) (auto simp: revert_login_def)
  have la': "login_as cfg u ?w0 False = (None, u2, w2)"
    using la e2 by simp
  have pre: "session (request ?w0) = Some Map.empty" "\<not> truthy_pk (pk (user (request ?w0)))"
    "backend u = None"
    using r_frame u by (simp_all add: AnonymousUser_def truthy_pk_def)
  from login_as_after_logout [OF la' pre] obtain b where
    b: "b \<in> set (AUTHENTICATION_BACKENDS cfg)" "suitable cfg (User_objects ?w0) u b"
      "user (request w2) = u2" "backend u2 = Some b"
      "u2\<lparr>backend := None, last_login := last_login u\<rparr> = u"
      "session (request w2) =
        Some [SESSION_KEY \<mapsto> Str (str_pk (pk u)), BACKEND_SESSION_KEY \<mapsto> Str b,
              HASH_SESSION_KEY \<mapsto> Str (session_auth_hash u)]"
      "messages (request w2) = messages (request ?w0)"
      "LogEntry_objects w2 = LogEntry_objects ?w0"
    by blast
  have w': "w' = w2\<lparr>request := (request w2)\<lparr>session :=
      Some ([SESSION_KEY \<mapsto> Str (str_pk (pk u)), BACKEND_SESSION_KEY \<mapsto> Str b,
              HASH_SESSION_KEY \<mapsto> Str (session_auth_hash u)](USER_SESSION_FLAG cfg := None))\<rparr>\<rparr>"
    using rv og name r la' b(6) by (simp add: revert_login_def)
  have name': "dict row (USERNAME_FIELD cfg) = Some name"
    using name u by simp
  have facts: "pk u = p0" "session_auth_hash u = session_auth_hash row" "last_login u = last_login row"
    using u p0 by simp_all
  have "suitable cfg (User_objects w) (row\<lparr>pk := Some i, backend := None\<rparr>) b"
    using b(2) u by simp
  moreover have "backend (user (request w')) = Some b"
    using w' b(3,4) by simp
  moreover have "(user (request w'))\<lparr>backend := None, last_login := last_login row\<rparr> =
         row\<lparr>pk := Some i, backend := None\<rparr>"
    using w' b(3,5) facts(3) u by simp
  moreover have "session (request w') =
         Some ([SESSION_KEY \<mapsto> Str (str_pk p0), BACKEND_SESSION_KEY \<mapsto> Str b,
                HASH_SESSION_KEY \<mapsto> Str (session_auth_hash row)]
               (USER_SESSION_FLAG cfg := None))"
    using w' facts by simp
  moreover have "messages (request w') =
      map_option (\<lambda>ms. if MESSAGE_LOGIN_REVERT cfg name = [] then ms
                        else ms @ [\<lparr>level = INFO, message = MESSAGE_LOGIN_REVERT cfg name,
                                    extra_tags = MESSAGE_EXTRA_TAGS cfg\<rparr>])
        (messages (request w))"
    using w' b(7) r_frame(3) by simp
  moreover have "LogEntry_objects w' = LogEntry_objects w"
    using w' b(8) by simp
  ultimately show ?thesis
    using p0 row name' b(1) by blast
qed

subsection \<open>The example evaluated\<close>

lemmas example_defs = example_config_def example_world_def admin_def alice_def ModelBackend_def
  admin_session_def
  impersonating_session_def impersonating_world_def

lemmas model_defs = login_as_def suitable_backend_def user_eq_def add_audit_log_entry_def
  log_action_def truthy_pk_def log_the_user_in_def no_update_last_login_def disconnect_def
  connect_def make_key_def login_def session_belongs_to_other_def login_backend_def
  update_last_login_def set_session_flag_def add_message_def sign_def unsign_def
  restore_original_login_def revert_login_def logout_def objects_get_def
  is_impersonated_session_def AnonymousUser_def suitable_def
  SESSION_KEY_def BACKEND_SESSION_KEY_def HASH_SESSION_KEY_def CHANGE_def INFO_def WARNING_def
  int_of_str_def digit_val_def str_pk_def str_int_def str_nat.simps digit_char_def Let_def

lemma example_login_as:
  "login_as example_config alice example_world True =
     (None, alice\<lparr>backend := Some ''ModelBackend''\<rparr>, impersonating_world)"
  by (simp add: example_defs model_defs)

lemma example_restore:
  "restore_original_login example_config impersonating_world = (None, restored_world)"
  by (simp add: example_defs restored_world_def model_defs)

section \<open>The claims\<close>

subsection \<open>C1: a call that returns has logged the target user in\<close>

text \<open>
  C1. For every call to \<^verbatim>\<open>login_as(user, request)\<close> that returns without raising, the
  request's session is afterwards authenticated as the target user. In the model: the
  request's user is the target user object (changed in its \<open>backend\<close> and \<open>last_login\<close>
  at most), the backend is set, and the session names the target's primary key and that
  backend. The early \<^verbatim>\<open>return\<close> before the login is never taken. The session part
  supposes that the configured flag key is not one of the two authentication keys, which
  the flag would otherwise overwrite.
\<close>

theorem login_as_authenticates:
  "login_as cfg u w store = (None, u', w') \<Longrightarrow>
     user (request w') = u' \<and>
     u'\<lparr>backend := backend u, last_login := last_login u\<rparr> = u \<and>
     (\<exists>b s. backend u' = Some b \<and> session (request w') = Some s \<and>
        ((store \<longrightarrow> USER_SESSION_FLAG cfg \<noteq> SESSION_KEY \<and>
                    USER_SESSION_FLAG cfg \<noteq> BACKEND_SESSION_KEY) \<longrightarrow>
         s SESSION_KEY = Some (Str (str_pk (pk u))) \<and> s BACKEND_SESSION_KEY = Some (Str b)))"
proof -
  assume la: "login_as cfg u w store = (None, u', w')"
  from la obtain u1 b w2 where
    sb: "suitable_backend cfg (User_objects w) u = Inr u1" and b: "backend u1 = Some b"
    and step: "log_the_user_in cfg u1 (snd (add_audit_log_entry cfg (pk (user (request w))) u1 w)) = (None, u', w2)"
    and rest: "if store then set_session_flag cfg (pk (user (request w))) u' w2 = (None, u', w') else w' = w2"
    by (rule login_as_returned)
  note ch = user_changes [OF suitable_backend_Inr(2) [OF sb] login_step_frame(4) [OF step]]
  note dn = login_step_done [OF step b]
  from dn(2) obtain s2 where s2: "session (request w2) = Some s2"
    "s2 SESSION_KEY = Some (Str (str_pk (pk u1)))" "s2 BACKEND_SESSION_KEY = Some (Str b)"
    by blast
  have bu: "backend u' = Some b"
    using ch(2) b by simp
  have pku: "pk u1 = pk u"
    using ch(4) .
  show ?thesis
  proof (cases store)
    case False
    then have "w' = w2"
      using rest by simp
    then show ?thesis
      using dn(1) ch(1) bu s2 pku by simp
  next
    case True
    then have flag: "set_session_flag cfg (pk (user (request w))) u' w2 = (None, u', w')"
      using rest by simp
    from set_session_flag_done [OF flag] s2(1) have
      s': "session (request w') =
        Some (s2(USER_SESSION_FLAG cfg \<mapsto> sign cfg (str_pk (pk (user (request w)))) (time w2)))"
      by simp
    have "user (request w') = u'"
      using set_session_flag_frame(5) [OF flag] dn(1) by simp
    then show ?thesis
      using ch(1) bu s' s2 pku True by auto
  qed
qed

theorem login_as_authenticates_witness:
  "login_as example_config alice example_world True =
     (None, alice\<lparr>backend := Some ''ModelBackend''\<rparr>, impersonating_world) \<and>
   user (request impersonating_world) = alice\<lparr>backend := Some ''ModelBackend''\<rparr> \<and>
   session (request impersonating_world) = Some impersonating_session \<and>
   impersonating_session SESSION_KEY = Some (Str (str_pk (pk alice))) \<and>
   impersonating_session BACKEND_SESSION_KEY = Some (Str ''ModelBackend'')"
  using login_as_authenticates [OF example_login_as] example_login_as
  by (simp add: example_defs model_defs)

subsection \<open>C2: switching back\<close>

text \<open>
  C2, as stated: for every request whose session carries the flag written by a preceding
  \<^verbatim>\<open>login_as(user, request, store_original_user=True)\<close>, calling
  \<^verbatim>\<open>restore_original_login(request)\<close> within the configured timeout logs the original
  user back in and removes the session flag. That fails when the original user cannot be
  loaded any more: the administrator logs in as the second user, the administrator's row
  is deleted, and a minute later the switch back raises \<^verbatim>\<open>DoesNotExist\<close> (only
  \<^verbatim>\<open>SignatureExpired\<close> is caught) and leaves the request logged out.
\<close>

theorem restore_after_admin_deleted_counterexample:
  "login_as example_config alice example_world True =
     (None, alice\<lparr>backend := Some ''ModelBackend''\<rparr>, impersonating_world) \<and>
   session (request admin_deleted_world) = Some impersonating_session \<and>
   impersonating_session (USER_SESSION_FLAG example_config) =
     Some (sign example_config (str_pk (Some 1)) 1000) \<and>
   time admin_deleted_world - 1000 \<le> USER_SESSION_DAYS_TIMESTAMP example_config * 86400 \<and>
   User_objects admin_deleted_world 1 = None \<and>
   fst (restore_original_login example_config admin_deleted_world) = Some DoesNotExist \<and>
   user (request (snd (restore_original_login example_config admin_deleted_world))) = AnonymousUser \<and>
   pk (user (request example_world)) = Some 1"
  using example_login_as by (simp add: example_defs admin_deleted_world_def model_defs)

text \<open>
  C2, amended. Let the session carry the original key \<open>p0\<close> signed at \<open>t0\<close>, and let
  \<^verbatim>\<open>restore_original_login\<close> be called within the timeout. When the call returns
  without raising, the original user is logged back in by the framework login: the
  original key names a row of the user table, the request's user is that row's user with
  the backend of a suitable configured backend, the session is exactly the three
  authentication keys of that user (its key, that backend, its hash) without the flag,
  the message of the switch back is queued and no audit entry is added. Whatever the
  outcome, the session has no flag afterwards if the flag key is not one of the
  framework's three authentication keys. The call returns without raising whenever the
  original user's row exists and has the user name attribute, a configured backend is
  suitable for it, and the request has a message storage.
\<close>

theorem restore_original_login_round_trip:
  assumes "session (request w) = Some s"
    and "s (USER_SESSION_FLAG cfg) = Some (sign cfg (str_pk p0) t0)"
    and "time w - t0 \<le> USER_SESSION_DAYS_TIMESTAMP cfg * 86400"
    and "restore_original_login cfg w = (e, w')"
  shows "(e = None \<longrightarrow>
            p0 \<noteq> None \<and> pk (user (request w')) = p0 \<and>
            \<not> is_impersonated_session cfg (request w') \<and>
            (\<exists>i row name. p0 = Some i \<and> User_objects w i = Some row \<and>
               dict row (USERNAME_FIELD cfg) = Some name \<and>
               (\<exists>b \<in> set (AUTHENTICATION_BACKENDS cfg).
                  suitable cfg (User_objects w) (row\<lparr>pk := Some i, backend := None\<rparr>) b \<and>
                  backend (user (request w')) = Some b \<and>
                  (user (request w'))\<lparr>backend := None, last_login := last_login row\<rparr> =
                    row\<lparr>pk := Some i, backend := None\<rparr> \<and>
                  session (request w') =
                    Some ([SESSION_KEY \<mapsto> Str (str_pk p0), BACKEND_SESSION_KEY \<mapsto> Str b,
                           HASH_SESSION_KEY \<mapsto> Str (session_auth_hash row)]
                          (USER_SESSION_FLAG cfg := None))) \<and>
               messages (request w') =
                 map_option (\<lambda>ms. if MESSAGE_LOGIN_REVERT cfg name = [] then ms
                                   else ms @ [\<lparr>level = INFO, message = MESSAGE_LOGIN_REVERT cfg name,
                                               extra_tags = MESSAGE_EXTRA_TAGS cfg\<rparr>])
                   (messages (request w)) \<and>
               LogEntry_objects w' = LogEntry_objects w)) \<and>
         (USER_SESSION_FLAG cfg \<notin> {SESSION_KEY, BACKEND_SESSION_KEY, HASH_SESSION_KEY} \<longrightarrow>
            \<not> is_impersonated_session cfg (request w')) \<and>
         ((\<exists>i row name. p0 = Some i \<and> User_objects w i = Some row \<and>
              dict row (USERNAME_FIELD cfg) = Some name \<and>
              (\<exists>b \<in> set (AUTHENTICATION_BACKENDS cfg).
                  suitable cfg (User_objects w) (row\<lparr>pk := Some i, backend := None\<rparr>) b)) \<and>
           messages (request w) \<noteq> None \<longrightarrow> e = None)"
proof -
  let ?w1 = "w\<lparr>request := (request w)\<lparr>session := Some Map.empty, user := AnonymousUser\<rparr>\<rparr>"
  have rv: "revert_login cfg (str_pk p0) ?w1 = (e, w')"
    using restore_with_valid_flag [OF assms(1-3)] assms(4) by simp
  have logged_back: "p0 \<noteq> None \<and> pk (user (request w')) = p0 \<and>
      \<not> is_impersonated_session cfg (request w')"
    if "e = None"
    using rv that revert_login_result by blast
  have restored: "\<exists>i row name. p0 = Some i \<and> User_objects w i = Some row \<and>
               dict row (USERNAME_FIELD cfg) = Some name \<and>
               (\<exists>b \<in> set (AUTHENTICATION_BACKENDS cfg).
                  suitable cfg (User_objects w) (row\<lparr>pk := Some i, backend := None\<rparr>) b \<and>
                  backend (user (request w')) = Some b \<and>
                  (user (request w'))\<lparr>backend := None, last_login := last_login row\<rparr> =
                    row\<lparr>pk := Some i, backend := None\<rparr> \<and>
                  session (request w') =
                    Some ([SESSION_KEY \<mapsto> Str (str_pk p0), BACKEND_SESSION_KEY \<mapsto> Str b,
                           HASH_SESSION_KEY \<mapsto> Str (session_auth_hash row)]
                          (USER_SESSION_FLAG cfg := None))) \<and>
               messages (request w') =
                 map_option (\<lambda>ms. if MESSAGE_LOGIN_REVERT cfg name = [] then ms
                                   else ms @ [\<lparr>level = INFO, message = MESSAGE_LOGIN_REVERT cfg name,
                                               extra_tags = MESSAGE_EXTRA_TAGS cfg\<rparr>])
                   (messages (request w)) \<and>
               LogEntry_objects w' = LogEntry_objects w"
    if "e = None"
  proof -
    have "revert_login cfg (str_pk p0) ?w1 = (None, w')"
      using rv that by simp
    from revert_login_restored [OF this] show ?thesis
      by simp
  qed
  have gone: "\<not> is_impersonated_session cfg (request w')"
    if "USER_SESSION_FLAG cfg \<notin> {SESSION_KEY, BACKEND_SESSION_KEY, HASH_SESSION_KEY}"
  proof -
    have "session (request ?w1) = Some Map.empty"
      by simp
    from revert_login_session_keys [OF rv this] obtain s1 where
      "session (request w') = Some s1"
      "dom s1 \<subseteq> {SESSION_KEY, BACKEND_SESSION_KEY, HASH_SESSION_KEY}"
      by blast
    then show ?thesis
      using that by (auto simp: is_impersonated_session_def)
  qed
  have returns: "e = None"
    if c: "\<exists>i row name. p0 = Some i \<and> User_objects w i = Some row \<and>
              dict row (USERNAME_FIELD cfg) = Some name \<and>
              (\<exists>b \<in> set (AUTHENTICATION_BACKENDS cfg).
                  suitable cfg (User_objects w) (row\<lparr>pk := Some i, backend := None\<rparr>) b)"
      and m: "messages (request w) \<noteq> None"
  proof -
    from c obtain i row name where p0: "p0 = Some i" and row: "User_objects w i = Some row"
      and name: "dict row (USERNAME_FIELD cfg) = Some name"
      and ex: "\<exists>b \<in> set (AUTHENTICATION_BACKENDS cfg).
                  suitable cfg (User_objects w) (row\<lparr>pk := Some i, backend := None\<rparr>) b"
      by blast
    have "fst (revert_login cfg (str_pk (Some i)) ?w1) = None"
      using row name m ex
      by (intro revert_login_succeeds [where row = row and name = name]) simp_all
    then show ?thesis
      using rv p0 by simp
  qed
  show ?thesis
    using logged_back restored gone returns by blast
qed

theorem restore_original_login_round_trip_witness:
  "session (request impersonating_world) = Some impersonating_session \<and>
   impersonating_session (USER_SESSION_FLAG example_config) =
     Some (sign example_config (str_pk (Some 1)) 1000) \<and>
   time impersonating_world - 1000 \<le> USER_SESSION_DAYS_TIMESTAMP example_config * 86400 \<and>
   restore_original_login example_config impersonating_world = (None, restored_world) \<and>
   pk (user (request restored_world)) = Some 1 \<and>
   backend (user (request restored_world)) = Some ''ModelBackend'' \<and>
   session (request restored_world) = Some admin_session \<and>
   admin_session SESSION_KEY = Some (Str ''1'') \<and>
   admin_session BACKEND_SESSION_KEY = Some (Str ''ModelBackend'') \<and>
   \<not> is_impersonated_session example_config (request restored_world)"
proof -
  have s: "session (request impersonating_world) = Some impersonating_session"
    by (simp add: impersonating_world_def)
  have f: "impersonating_session (USER_SESSION_FLAG example_config) =
     Some (sign example_config (str_pk (Some 1)) 1000)"
    by (simp add: example_defs model_defs)
  have t: "time impersonating_world - 1000 \<le> USER_SESSION_DAYS_TIMESTAMP example_config * 86400"
    by (simp add: example_defs)
  show ?thesis
    using restore_original_login_round_trip [OF s f t example_restore] s f t example_restore
    by (simp add: restored_world_def example_defs model_defs)
qed

subsection \<open>C3: the signed original key is stored\<close>

text \<open>
  C3. For every call to \<^verbatim>\<open>login_as(user, request)\<close> with
  \<^verbatim>\<open>store_original_user=True\<close> that returns without raising, the identifier of the
  user the request had before the call, signed, is in the session under the configured
  flag key.
\<close>

theorem login_as_stores_signed_original_pk:
  "login_as cfg u w True = (None, u', w') \<Longrightarrow>
     (\<exists>s. session (request w') = Some s \<and>
        s (USER_SESSION_FLAG cfg) = Some (sign cfg (str_pk (pk (user (request w)))) (time w)))"
  by (rule login_as_flag)

theorem login_as_stores_signed_original_pk_witness:
  "login_as example_config alice example_world True =
     (None, alice\<lparr>backend := Some ''ModelBackend''\<rparr>, impersonating_world) \<and>
   session (request impersonating_world) = Some impersonating_session \<and>
   impersonating_session (USER_SESSION_FLAG example_config) =
     Some (sign example_config (str_pk (pk (user (request example_world)))) (time example_world)) \<and>
   sign example_config (str_pk (pk (user (request example_world)))) (time example_world) =
     Token ''1'' 1000 ''mac(1,1000)''"
  using login_as_stores_signed_original_pk [OF example_login_as] example_login_as
  by (simp add: example_defs model_defs)

subsection \<open>C4: the audit entry\<close>

text \<open>
  C4, as stated: for every call to \<^verbatim>\<open>login_as(user, request)\<close> that returns without
  raising, an audit log entry is recorded. The entry is written under
  \<^verbatim>\<open>if original_user_pk:\<close>, so a call on a request whose user has no primary key
  returns without one. This is the call \<^verbatim>\<open>restore_original_login\<close> itself makes, after
  its logout.
\<close>

theorem login_as_anonymous_no_audit_entry_counterexample:
  "pk (user (request anonymous_world)) = None \<and>
   LogEntry_objects anonymous_world = [] \<and>
   fst (login_as example_config alice anonymous_world False) = None \<and>
   user (request (snd (snd (login_as example_config alice anonymous_world False)))) =
     alice\<lparr>backend := Some ''ModelBackend''\<rparr> \<and>
   LogEntry_objects (snd (snd (login_as example_config alice anonymous_world False))) = []"
  by (simp add: example_defs anonymous_world_def model_defs)

text \<open>
  C4, amended. For every call to \<^verbatim>\<open>login_as(user, request)\<close> that returns without
  raising: when the original user's primary key is true (neither \<^verbatim>\<open>None\<close> nor 0), one
  audit log entry is appended, attributed to that key, naming the target as its object and
  saying that the original user logged in as the target; otherwise the log is unchanged.
\<close>

theorem login_as_audit_entry:
  "login_as cfg u w store = (None, u', w') \<Longrightarrow>
     LogEntry_objects w' =
       (if truthy_pk (pk (user (request w)))
        then LogEntry_objects w @
          [\<lparr>user_id = pk (user (request w)), content_type_id = user_content_type cfg,
            object_id = str_pk (pk u), object_repr = take 200 (to_str u),
            change_message = ''User '' @ to_str (user (request w)) @ '' logged in as '' @ to_str u @ ''.'',
            action_flag = CHANGE\<rparr>]
        else LogEntry_objects w)"
proof -
  assume la: "login_as cfg u w store = (None, u', w')"
  then obtain u1 where sb: "suitable_backend cfg (User_objects w) u = Inr u1"
    and audit: "fst (add_audit_log_entry cfg (pk (user (request w))) u1 w) = None"
    and log: "LogEntry_objects w' =
      LogEntry_objects (snd (add_audit_log_entry cfg (pk (user (request w))) u1 w))"
    using login_as_log [OF la] by auto
  have "pk u1 = pk u" "to_str u1 = to_str u"
    using sb by (auto simp: suitable_backend_def split: option.splits if_splits)
  then show ?thesis
    using log add_audit_log_entry_done [OF audit] by simp
qed

theorem login_as_audit_entry_witness:
  "login_as example_config alice example_world True =
     (None, alice\<lparr>backend := Some ''ModelBackend''\<rparr>, impersonating_world) \<and>
   truthy_pk (pk (user (request example_world))) \<and>
   LogEntry_objects example_world = [] \<and>
   LogEntry_objects impersonating_world =
     [\<lparr>user_id = Some 1, content_type_id = 4, object_id = ''2'', object_repr = ''alice'',
       change_message = ''User admin logged in as alice.'', action_flag = 2\<rparr>]"
  using login_as_audit_entry [OF example_login_as] example_login_as
  by (simp add: example_defs model_defs)

subsection \<open>C5: when the configuration error is raised\<close>




subsection \<open>C6: the signed flag reads back\<close>

text \<open>
  C6. Unsigning the value \<^verbatim>\<open>login_as\<close> stored, within the configured maximum age,
  yields the original user's primary key that was signed: the text of the key, which the
  key field reads back as the key.
\<close>

theorem signed_flag_round_trip:
  "login_as cfg u w True = (None, u', w') \<Longrightarrow>
   t_now - time w \<le> USER_SESSION_DAYS_TIMESTAMP cfg * 86400 \<Longrightarrow>
     (\<exists>s signed. session (request w') = Some s \<and> s (USER_SESSION_FLAG cfg) = Some signed \<and>
        unsign cfg signed (USER_SESSION_DAYS_TIMESTAMP cfg * 86400) t_now =
          Inr (str_pk (pk (user (request w)))) \<and>
        (case pk (user (request w)) of
           None \<Rightarrow> str_pk (pk (user (request w))) = ''None''
         | Some i \<Rightarrow> int_of_str (str_pk (pk (user (request w)))) = Some i))"
proof -
  assume la: "login_as cfg u w True = (None, u', w')"
    and age: "t_now - time w \<le> USER_SESSION_DAYS_TIMESTAMP cfg * 86400"
  from login_as_flag [OF la] obtain s where
    s: "session (request w') = Some s"
      "s (USER_SESSION_FLAG cfg) = Some (sign cfg (str_pk (pk (user (request w)))) (time w))"
    by blast
  have "unsign cfg (sign cfg (str_pk (pk (user (request w)))) (time w))
      (USER_SESSION_DAYS_TIMESTAMP cfg * 86400) t_now = Inr (str_pk (pk (user (request w))))"
    using age by (simp add: unsign_def sign_def)
  moreover have "case pk (user (request w)) of
           None \<Rightarrow> str_pk (pk (user (request w))) = ''None''
         | Some i \<Rightarrow> int_of_str (str_pk (pk (user (request w)))) = Some i"
    by (simp add: int_of_str_str_int str_pk_def split: option.splits)
  ultimately show ?thesis
    using s by blast
qed

theorem signed_flag_round_trip_witness:
  "login_as example_config alice example_world True =
     (None, alice\<lparr>backend := Some ''ModelBackend''\<rparr>, impersonating_world) \<and>
   1060 - time example_world \<le> USER_SESSION_DAYS_TIMESTAMP example_config * 86400 \<and>
   session (request impersonating_world) = Some impersonating_session \<and>
   impersonating_session (USER_SESSION_FLAG example_config) = Some (Token ''1'' 1000 ''mac(1,1000)'') \<and>
   unsign example_config (Token ''1'' 1000 ''mac(1,1000)'')
     (USER_SESSION_DAYS_TIMESTAMP example_config * 86400) 1060 = Inr ''1'' \<and>
   int_of_str ''1'' = pk (user (request example_world))"
proof -
  have age: "1060 - time example_world \<le> USER_SESSION_DAYS_TIMESTAMP example_config * 86400"
    by (simp add: example_defs)
  show ?thesis
    using signed_flag_round_trip [OF example_login_as age] example_login_as age
    by (simp add: example_defs model_defs)
qed

subsection \<open>C7: switching back without a flag\<close>

text \<open>
  C7. For every request whose session does not contain the session flag,
  \<^verbatim>\<open>restore_original_login(request)\<close> logs out and restores nothing: it returns, the
  session is empty, the user is anonymous, and no message and no audit entry is added.
\<close>

theorem restore_without_flag_logs_out:
  "session (request w) = Some s \<Longrightarrow> s (USER_SESSION_FLAG cfg) = None \<Longrightarrow>
     restore_original_login cfg w =
       (None, w\<lparr>request := (request w)\<lparr>session := Some Map.empty, user := AnonymousUser\<rparr>\<rparr>) \<and>
     user (request (snd (restore_original_login cfg w))) = AnonymousUser \<and>
     messages (request (snd (restore_original_login cfg w))) = messages (request w) \<and>
     LogEntry_objects (snd (restore_original_login cfg w)) = LogEntry_objects w"
  by (simp add: restore_original_login_def logout_def)

theorem restore_without_flag_logs_out_witness:
  "session (request example_world) = Some admin_session \<and>
   admin_session (USER_SESSION_FLAG example_config) = None \<and>
   restore_original_login example_config example_world = (None, anonymous_world) \<and>
   user (request anonymous_world) = AnonymousUser \<and>
   messages (request anonymous_world) = messages (request example_world)"
proof -
  have s: "session (request example_world) = Some admin_session"
    by (simp add: example_world_def)
  have f: "admin_session (USER_SESSION_FLAG example_config) = None"
    by (simp add: example_defs model_defs)
  show ?thesis
    using restore_without_flag_logs_out [OF s f] s f
    by (simp add: example_defs anonymous_world_def)
qed

subsection \<open>C8: the configuration error leaves everything as it was\<close>

text \<open>
  C8. Whenever \<^verbatim>\<open>login_as(user, request)\<close> raises \<^verbatim>\<open>ImproperlyConfigured\<close>, the
  state is unchanged: the user object and the world are the ones of the call, so no audit
  entry was created, no login was performed and the flag was not written.
\<close>

theorem login_as_failure_is_atomic:
  "fst (login_as cfg u w store) = Some ImproperlyConfigured \<Longrightarrow>
     login_as cfg u w store = (Some ImproperlyConfigured, u, w)"
proof -
  assume f: "fst (login_as cfg u w store) = Some ImproperlyConfigured"
  obtain e u' w' where la: "login_as cfg u w store = (e, u', w')"
    by (cases "login_as cfg u w store") auto
  from la show ?thesis
  proof (cases rule: login_as_cases)
    case misconfigured
    then show ?thesis
      using la by simp
  next
    case (audit_raised u1 b)
    then show ?thesis
      using f la by simp
  next
    case (login_raised u1 b err)
    have "err \<noteq> ImproperlyConfigured"
      using login_step_errors [OF login_raised(4)] login_raised(2) by auto
    then show ?thesis
      using f la login_raised(5) by simp
  next
    case (logged_in u1 b w2)
    have "e \<noteq> Some ImproperlyConfigured"
      using logged_in(5) set_session_flag_frame(7) [of cfg "pk (user (request w))" u' w2 e u' w']
      by (auto split: if_splits)
    then show ?thesis
      using f la by simp
  qed
qed

theorem login_as_failure_is_atomic_witness:
  "fst (login_as (example_config\<lparr>AUTHENTICATION_BACKENDS := []\<rparr>) alice example_world True) =
     Some ImproperlyConfigured \<and>
   login_as (example_config\<lparr>AUTHENTICATION_BACKENDS := []\<rparr>) alice example_world True =
     (Some ImproperlyConfigured, alice, example_world)"
proof -
  have f: "fst (login_as (example_config\<lparr>AUTHENTICATION_BACKENDS := []\<rparr>) alice example_world True) =
     Some ImproperlyConfigured"
    by (simp add: example_defs model_defs)
  show ?thesis
    using login_as_failure_is_atomic [OF f] f by simp
qed

subsection \<open>C9: asking whether a session is impersonated\<close>

text \<open>
  C9. \<^verbatim>\<open>is_impersonated_session(request)\<close> is total: for a request without a session
  it is false, and otherwise it is true exactly when the session contains the configured
  flag key.
\<close>

theorem is_impersonated_session_total:
  "(session r = None \<longrightarrow> \<not> is_impersonated_session cfg r) \<and>
   (\<forall>s. session r = Some s \<longrightarrow>
      is_impersonated_session cfg r = (USER_SESSION_FLAG cfg \<in> dom s))"
  by (auto simp: is_impersonated_session_def)

theorem is_impersonated_session_total_witness:
  "session (request impersonating_world) = Some impersonating_session \<and>
   USER_SESSION_FLAG example_config \<in> dom impersonating_session \<and>
   is_impersonated_session example_config (request impersonating_world) \<and>
   session (request example_world) = Some admin_session \<and>
   USER_SESSION_FLAG example_config \<notin> dom admin_session \<and>
   \<not> is_impersonated_session example_config (request example_world) \<and>
   session ((request example_world)\<lparr>session := None\<rparr>) = None \<and>
   \<not> is_impersonated_session example_config ((request example_world)\<lparr>session := None\<rparr>)"
  using is_impersonated_session_total [of "request impersonating_world" example_config]
    is_impersonated_session_total [of "request example_world" example_config]
    is_impersonated_session_total [of "(request example_world)\<lparr>session := None\<rparr>" example_config]
  by (simp add: example_defs model_defs)

subsection \<open>C10: the receiver is not connected again when the login raises\<close>

text \<open>
  C10. The claim: when the update-last-login feature is disabled, \<^verbatim>\<open>login_as\<close>
  leaves the connection state of the \<^verbatim>\<open>update_last_login\<close> receiver on the
  \<^verbatim>\<open>user_logged_in\<close> signal unchanged. The docstring of
  \<^verbatim>\<open>no_update_last_login\<close> says the same: disconnect for the scope of the context
  manager, then restore. The code after \<^verbatim>\<open>yield\<close> is not in a \<^verbatim>\<open>finally\<close>, so it
  runs only when the body returns. On a request without a session, with the feature off
  and the receiver connected by its dispatch uid, the login raises
  \<^verbatim>\<open>AttributeError\<close> inside the \<^verbatim>\<open>with\<close> block and the receiver is not connected
  after the call.
\<close>

theorem login_as_leaves_receiver_disconnected:
  "UPDATE_LAST_LOGIN example_config = False \<and>
   session (request sessionless_world) = None \<and>
   receivers sessionless_world =
     [(Dispatch_uid ''update_last_login'', ''update_last_login''),
      (Receiver_id ''notify_staff'', ''notify_staff'')] \<and>
   fst (login_as example_config alice sessionless_world True) = Some AttributeError \<and>
   receivers (snd (snd (login_as example_config alice sessionless_world True))) =
     [(Receiver_id ''notify_staff'', ''notify_staff'')]"
  by (simp add: example_defs sessionless_world_def model_defs)

subsection \<open>When the login does not raise, the receiver is connected again\<close>

text \<open>
  When the update-last-login feature is disabled and the login of \<^verbatim>\<open>login_as\<close> does
  not raise (the call returns, or raises one of the exceptions raised before or after
  the login), the lookup keys registered on \<^verbatim>\<open>user_logged_in\<close> are the ones
  registered before the call, and every connection of \<^verbatim>\<open>update_last_login\<close> present
  before, by identity or by dispatch uid, is present after; the set of connections is the
  same when the two keys of \<^verbatim>\<open>update_last_login\<close> were not held by another receiver.
  The lookup keys of a signal are distinct, which \<open>connect\<close> maintains.
\<close>

theorem no_update_last_login_restores_connections:
  assumes "\<not> UPDATE_LAST_LOGIN cfg"
    and "distinct (map fst (receivers w))"
    and "login_as cfg u w store = (e, u', w')"
    and "e \<in> {None, Some KeyError, Some MessageFailure, Some ImproperlyConfigured,
               Some IntegrityError}"
  shows "fst ` set (receivers w') = fst ` set (receivers w) \<and>
    (\<forall>k. (k, ''update_last_login'') \<in> set (receivers w) \<longrightarrow>
         (k, ''update_last_login'') \<in> set (receivers w')) \<and>
    ((\<forall>r. (Receiver_id ''update_last_login'', r) \<in> set (receivers w) \<or>
          (Dispatch_uid ''update_last_login'', r) \<in> set (receivers w) \<longrightarrow>
          r = ''update_last_login'') \<longrightarrow>
       set (receivers w') = set (receivers w)) \<and>
    distinct (map fst (receivers w'))"
  using assms(3)
proof (cases rule: login_as_cases)
  case misconfigured
  then show ?thesis
    using assms(2) by simp
next
  case (audit_raised u1 b)
  then show ?thesis
    using assms(2) by simp
next
  case (login_raised u1 b err)
  have "err \<in> {AttributeError, ValidationError, ValueError, DatabaseError}"
    using login_step_errors [OF login_raised(4)] login_raised(2) by simp
  then show ?thesis
    using assms(4) login_raised(5) by auto
next
  case (logged_in u1 b w2)
  let ?w1 = "snd (add_audit_log_entry cfg (pk (user (request w))) u1 w)"
  have r1: "receivers ?w1 = receivers w"
    by (simp add: add_audit_log_entry_frame)
  have r': "receivers w' = receivers w2"
    using logged_in(5) set_session_flag_frame(3) by (auto split: if_splits)
  have eq: "receivers w' =
     (if Receiver_id ''update_last_login'' \<in> fst ` set (receivers w)
      then snd (remove_key (Receiver_id ''update_last_login'') (receivers w)) @
             [(Receiver_id ''update_last_login'', ''update_last_login'')]
      else if Dispatch_uid ''update_last_login'' \<in> fst ` set (receivers w)
      then snd (remove_key (Dispatch_uid ''update_last_login'') (receivers w)) @
             [(Dispatch_uid ''update_last_login'', ''update_last_login'')]
      else receivers w)"
    using log_the_user_in_receivers [OF logged_in(4) assms(1)] assms(2) r1 r' by simp
  note p = reconnected_props [OF assms(2) eq]
  show ?thesis
    using p(1) p(2) p(3) p(4) by blast
qed

theorem no_update_last_login_restores_connections_witness:
  "\<not> UPDATE_LAST_LOGIN example_config \<and>
   distinct (map fst (receivers example_world)) \<and>
   login_as example_config alice example_world True =
     (None, alice\<lparr>backend := Some ''ModelBackend''\<rparr>, impersonating_world) \<and>
   (Dispatch_uid ''update_last_login'', ''update_last_login'') \<in> set (receivers example_world) \<and>
   (Dispatch_uid ''update_last_login'', ''update_last_login'') \<in> set (receivers impersonating_world) \<and>
   set (receivers impersonating_world) = set (receivers example_world) \<and>
   User_objects impersonating_world = User_objects example_world"
proof -
  have u: "\<not> UPDATE_LAST_LOGIN example_config"
    by (simp add: example_config_def)
  have d: "distinct (map fst (receivers example_world))"
    by (simp add: example_world_def)
  have e: "None \<in> {None, Some KeyError, Some MessageFailure, Some ImproperlyConfigured,
      Some IntegrityError}"
    by simp
  show ?thesis
    using no_update_last_login_restores_connections [OF u d example_login_as e] u d example_login_as
    by (auto simp: example_defs)
qed

end
